theory Spec2Isabelle
  imports Main "HOL-Library.Word"
begin

section \<open>The framebuffer backend of minuitwrp (graphics_fbdev.cpp)\<close>

text \<open>
  A shallow embedding of \<^verbatim>\<open>src/minuitwrp/graphics_fbdev.cpp\<close>. The file-level statics of
  the C++ file become one state record that every operation takes and returns. The
  kernel and the allocator are an environment record: it fixes what each system call of
  one \<^verbatim>\<open>fbdev_init\<close> returns. The conditional compilation switches become a record of
  booleans. An access outside a buffer, a null dereference and a loop that does not return
  are results of their own, never hidden.
\<close>

subsection \<open>Machine types\<close>

type_synonym u32 = "32 word"
type_synonym byte = "8 word"
type_synonym addr = nat

subsection \<open>Descriptors of linux/fb.h (the fields the backend reads or writes)\<close>

record fb_bitfield =
  offset :: u32
  length_f :: u32
  msb_right :: u32

record fb_var_screeninfo =
  xres :: u32
  yres :: u32
  xres_virtual :: u32
  yres_virtual :: u32
  yoffset :: u32
  bits_per_pixel :: u32
  red :: fb_bitfield
  green :: fb_bitfield
  blue :: fb_bitfield
  transp :: fb_bitfield

record fb_fix_screeninfo =
  smem_len :: u32
  line_length :: u32

subsection \<open>Surfaces\<close>

text \<open>
  Modelled from the spec: the pixel-format tags. They are enumeration constants of
  pixelflinger's format header, which is not among the sources; the spec calls them a
  fixed enumeration of formats. Listed are the four tags that \<^verbatim>\<open>fbdev_init\<close> assigns and
  the tag of value zero, which a zero-initialised static surface holds; distinct
  constructors stand for their distinct values.
\<close>

datatype pixel_format =
    GGL_PIXEL_FORMAT_NONE
  | GGL_PIXEL_FORMAT_RGBA_8888
  | GGL_PIXEL_FORMAT_RGBX_8888
  | GGL_PIXEL_FORMAT_RGB_565
  | GGL_PIXEL_FORMAT_BGRA_8888

text \<open>
  A pointer into pixel memory. The backend touches two byte regions: the device memory
  mapped by \<^verbatim>\<open>mmap\<close> and the block of the second \<^verbatim>\<open>malloc\<close>. A pointer names the region and
  a byte offset into it.
\<close>

datatype ptr = NULL | FbMem nat | DrawMem nat

text \<open>
  Modelled from the spec: \<^verbatim>\<open>GRSurface\<close> is declared in minui.h, which is not among the
  sources. The spec lists its fields (width, height, row stride in bytes, bytes per
  pixel, format tag, pixel memory). The integer fields are taken as 32-bit values, the
  width of the descriptor fields that \<^verbatim>\<open>fbdev_init\<close> stores in them, and products of them
  are computed in 32 bits.
\<close>

record GRSurface =
  width :: u32
  height :: u32
  row_bytes :: u32
  pixel_bytes :: u32
  data :: ptr
  format :: pixel_format

subsection \<open>Format selection (fbdev_init, the if-chain on the variable descriptor)\<close>

definition fbdev_init_format :: "fb_var_screeninfo \<Rightarrow> pixel_format" where
  "fbdev_init_format v =
     (if bits_per_pixel v = 16 then GGL_PIXEL_FORMAT_RGB_565
      else if offset (red v) = 8 then GGL_PIXEL_FORMAT_BGRA_8888
      else if offset (red v) = 0 then GGL_PIXEL_FORMAT_RGBA_8888
      else if offset (red v) = 24 then GGL_PIXEL_FORMAT_RGBX_8888
      else if length_f (red v) = 8 then GGL_PIXEL_FORMAT_RGBX_8888
      else GGL_PIXEL_FORMAT_RGB_565)"

text \<open>Descriptors used as concrete inputs below.\<close>

definition bitfield :: "u32 \<Rightarrow> u32 \<Rightarrow> fb_bitfield" where
  "bitfield off len = \<lparr>offset = off, length_f = len, msb_right = 0\<rparr>"

definition descriptor ::
  "u32 \<Rightarrow> u32 \<Rightarrow> u32 \<Rightarrow> fb_bitfield \<Rightarrow> fb_bitfield \<Rightarrow> fb_bitfield \<Rightarrow> fb_var_screeninfo" where
  "descriptor w h bpp r g b =
     \<lparr>xres = w, yres = h, xres_virtual = w, yres_virtual = h, yoffset = 0,
      bits_per_pixel = bpp, red = r, green = g, blue = b, transp = bitfield 0 0\<rparr>"

subsection \<open>Build configuration, faults, resources\<close>

text \<open>The preprocessor switches of the file: each field says whether the macro is defined.\<close>

record config =
  RECOVERY_RGB_565 :: bool
  RECOVERY_BGRA :: bool
  TW_NO_SCREEN_BLANK :: bool
  TW_BRIGHTNESS_PATH :: bool
  TW_MAX_BRIGHTNESS :: bool

text \<open>
  Undefined behaviour of the C++ code is a fault: an access outside the region a pointer
  points into (a null pointer points into no region), a dereference of a null
  \<^verbatim>\<open>gr_draw\<close>, an index outside \<^verbatim>\<open>gr_framebuffer[2]\<close>, and a loop that never returns.
\<close>

datatype fault = NullPointer | OutOfBounds | Diverges

text \<open>What the process holds from the operating system and the allocator.\<close>

datatype resource = Fd int | Mapping addr nat | Block addr

subsection \<open>The state: the file-level statics, the two byte regions, the ledger\<close>

record fb_state =
  gr_framebuffer0 :: GRSurface
  gr_framebuffer1 :: GRSurface
  double_buffered :: bool
  gr_draw :: "addr option"
  gr_draw_surface :: GRSurface
  displayed_buffer :: int
  vi :: fb_var_screeninfo
  fb_fd :: int
  smem_len_static :: u32
  fb_mem :: "byte list"
  draw_mem :: "byte list"
  shown :: fb_var_screeninfo
  live :: "resource list"
  stderr_log :: "string list"

text \<open>
  \<^verbatim>\<open>gr_draw\<close> is the address of the heap \<^verbatim>\<open>GRSurface\<close> (\<open>None\<close> is the null pointer) and
  \<^verbatim>\<open>gr_draw_surface\<close> is the struct stored there. \<^verbatim>\<open>smem_len_static\<close> is the static
  \<^verbatim>\<open>smem_len\<close>. \<^verbatim>\<open>live\<close> lists the descriptors, mappings and heap blocks the process
  holds; \<^verbatim>\<open>stderr_log\<close> lists the messages given to \<^verbatim>\<open>perror\<close>. \<^verbatim>\<open>shown\<close> is the
  device's side of the page flip: the variable descriptor the driver holds, which is the
  one it last reported or last accepted; its \<^verbatim>\<open>yoffset\<close> is the line of the mapping at which
  the display starts to scan, so it decides which front buffer is on the screen. The informational
  \<^verbatim>\<open>printf\<close> output is not modelled. The state keeps the bytes of a region and the struct
  behind \<^verbatim>\<open>gr_draw\<close> after the process has released them: a use after release is not a
  fault of the model. No property below concerns a state after a release.
\<close>

definition zero_bitfield :: fb_bitfield where
  "zero_bitfield = \<lparr>offset = 0, length_f = 0, msb_right = 0\<rparr>"

definition zero_surface :: GRSurface where
  "zero_surface =
     \<lparr>width = 0, height = 0, row_bytes = 0, pixel_bytes = 0, data = NULL,
      format = GGL_PIXEL_FORMAT_NONE\<rparr>"

text \<open>The statics as the program starts: zeroed, but for \<^verbatim>\<open>fb_fd = -1\<close>.\<close>

definition initial_state :: fb_state where
  "initial_state =
     \<lparr>gr_framebuffer0 = zero_surface, gr_framebuffer1 = zero_surface,
      double_buffered = False, gr_draw = None, gr_draw_surface = zero_surface,
      displayed_buffer = 0,
      vi = \<lparr>xres = 0, yres = 0, xres_virtual = 0, yres_virtual = 0, yoffset = 0,
            bits_per_pixel = 0, red = zero_bitfield, green = zero_bitfield,
            blue = zero_bitfield, transp = zero_bitfield\<rparr>,
      fb_fd = - 1, smem_len_static = 0, fb_mem = [], draw_mem = [],
      shown = \<lparr>xres = 0, yres = 0, xres_virtual = 0, yres_virtual = 0, yoffset = 0,
               bits_per_pixel = 0, red = zero_bitfield, green = zero_bitfield,
               blue = zero_bitfield, transp = zero_bitfield\<rparr>,
      live = [], stderr_log = []\<rparr>"

definition perror :: "string \<Rightarrow> fb_state \<Rightarrow> fb_state" where
  "perror msg s = s\<lparr>stderr_log := stderr_log s @ [msg]\<rparr>"

definition acquire :: "resource \<Rightarrow> fb_state \<Rightarrow> fb_state" where
  "acquire r s = s\<lparr>live := r # live s\<rparr>"

definition release :: "resource \<Rightarrow> fb_state \<Rightarrow> fb_state" where
  "release r s = s\<lparr>live := remove1 r (live s)\<rparr>"

subsection \<open>Memory access\<close>

text \<open>The bytes a pointer can address: from its offset to the end of its region.\<close>

definition region :: "ptr \<Rightarrow> fb_state \<Rightarrow> byte list" where
  "region p s =
     (case p of
        NULL \<Rightarrow> []
      | FbMem off \<Rightarrow> drop off (fb_mem s)
      | DrawMem off \<Rightarrow> drop off (draw_mem s))"

text \<open>Overwrite the bytes at a pointer; callers check the bounds first.\<close>

definition store :: "ptr \<Rightarrow> byte list \<Rightarrow> fb_state \<Rightarrow> fb_state" where
  "store p bs s =
     (case p of
        NULL \<Rightarrow> s
      | FbMem off \<Rightarrow>
          s\<lparr>fb_mem := take off (fb_mem s) @ bs @ drop (off + length bs) (fb_mem s)\<rparr>
      | DrawMem off \<Rightarrow>
          s\<lparr>draw_mem := take off (draw_mem s) @ bs @ drop (off + length bs) (draw_mem s)\<rparr>)"

definition ptr_add :: "ptr \<Rightarrow> nat \<Rightarrow> ptr" where
  "ptr_add p n =
     (case p of NULL \<Rightarrow> NULL | FbMem off \<Rightarrow> FbMem (off + n) | DrawMem off \<Rightarrow> DrawMem (off + n))"

definition memset_bytes :: "ptr \<Rightarrow> byte \<Rightarrow> nat \<Rightarrow> fb_state \<Rightarrow> fault + fb_state" where
  "memset_bytes p c n s =
     (if n \<le> length (region p s) then Inr (store p (replicate n c) s) else Inl OutOfBounds)"

definition memcpy_bytes :: "ptr \<Rightarrow> ptr \<Rightarrow> nat \<Rightarrow> fb_state \<Rightarrow> fault + fb_state" where
  "memcpy_bytes dst src n s =
     (if n \<le> length (region src s) \<and> n \<le> length (region dst s)
      then Inr (store dst (take n (region src s)) s)
      else Inl OutOfBounds)"

text \<open>The number of bytes of one frame, \<^verbatim>\<open>height * row_bytes\<close>, as the code computes it.\<close>

definition frame_bytes :: "GRSurface \<Rightarrow> nat" where
  "frame_bytes g = unat (height g * row_bytes g)"

subsection \<open>fbdev_blank\<close>

text \<open>
  \<open>ok\<close> says whether the one system call that can fail succeeds: \<^verbatim>\<open>open\<close> of the
  brightness file in the first configuration, the blank \<^verbatim>\<open>ioctl\<close> in the second. The
  brightness descriptor is opened and closed within the call; what is written to the
  backlight and the panel's power state are outside the state.
\<close>

definition fbdev_blank :: "config \<Rightarrow> bool \<Rightarrow> bool \<Rightarrow> fb_state \<Rightarrow> fb_state" where
  "fbdev_blank cfg ok blank s =
     (if TW_NO_SCREEN_BLANK cfg \<and> TW_BRIGHTNESS_PATH cfg \<and> TW_MAX_BRIGHTNESS cfg then
        (if ok then s else perror ''cannot open LCD backlight'' s)
      else if \<not> TW_NO_SCREEN_BLANK cfg then
        (if ok then s else perror ''ioctl(): blank'' s)
      else s)"

subsection \<open>set_displayed_framebuffer\<close>

text \<open>
  \<open>ioctl_ok\<close> says whether \<^verbatim>\<open>ioctl(fb_fd, FBIOPUT_VSCREENINFO, &vi)\<close> succeeds. When it
  does, the driver takes the descriptor it is given; when it fails, the driver keeps the
  one it has.
\<close>

definition set_displayed_framebuffer :: "bool \<Rightarrow> u32 \<Rightarrow> fb_state \<Rightarrow> fb_state" where
  "set_displayed_framebuffer ioctl_ok n s =
     (if n > 1 \<or> \<not> double_buffered s then s
      else
        let s1 = s\<lparr>vi := (vi s)\<lparr>yres_virtual := height (gr_framebuffer0 s) * 2,
                                yoffset := n * height (gr_framebuffer0 s),
                                bits_per_pixel := pixel_bytes (gr_framebuffer0 s) * 8\<rparr>\<rparr>;
            s2 = (if ioctl_ok then s1\<lparr>shown := vi s1\<rparr>
                  else perror ''active fb swap failed'' s1)
        in s2\<lparr>displayed_buffer := sint n\<rparr>)"

subsection \<open>fbdev_init\<close>

text \<open>
  What the system calls of one \<^verbatim>\<open>fbdev_init\<close> return: \<^verbatim>\<open>open\<close> (the descriptor, or -1), the
  two descriptor queries (\<open>None\<close> when the \<^verbatim>\<open>ioctl\<close> is negative; the variable descriptor
  the driver reports is the one it holds), \<^verbatim>\<open>mmap\<close> (\<open>None\<close> is
  \<^verbatim>\<open>MAP_FAILED\<close>), the two \<^verbatim>\<open>malloc\<close> calls (\<open>None\<close> is the null pointer), the bytes a
  fresh heap block holds, and whether the page-flip and blank calls succeed.
\<close>

record init_env =
  open_ret :: int
  fscreeninfo :: "fb_fix_screeninfo option"
  vscreeninfo :: "fb_var_screeninfo option"
  mmap_ret :: "addr option"
  malloc_surface :: "addr option"
  malloc_pixels :: "addr option"
  heap_garbage :: "nat \<Rightarrow> byte"
  put_vscreeninfo_ok :: bool
  blank_ok :: bool
  unblank_ok :: bool

text \<open>The block under \<^verbatim>\<open>#ifdef RECOVERY_RGB_565\<close>.\<close>

definition force_rgb_565 :: "fb_fix_screeninfo \<Rightarrow> fb_var_screeninfo \<Rightarrow> fb_var_screeninfo" where
  "force_rgb_565 fi v =
     v\<lparr>blue := \<lparr>offset = 0, length_f = 5, msb_right = 0\<rparr>,
       green := \<lparr>offset = 5, length_f = 6, msb_right = 0\<rparr>,
       red := \<lparr>offset = 11, length_f = 5, msb_right = 0\<rparr>,
       transp := (transp v)\<lparr>offset := 0, length_f := 0\<rparr>,
       bits_per_pixel := 16,
       xres_virtual := line_length fi div 2\<rparr>"

text \<open>
  The tail of \<^verbatim>\<open>fbdev_init\<close>, from the double-buffering check on, entered once both heap
  blocks exist.
\<close>

definition init_buffers ::
  "config \<Rightarrow> init_env \<Rightarrow> int \<Rightarrow> fb_fix_screeninfo \<Rightarrow> fb_state \<Rightarrow> fault + (addr option \<times> fb_state)" where
  "init_buffers cfg env fd fi s =
     (let s1 =
            (if yres (vi s) * line_length fi * 2 \<le> smem_len fi
             then s\<lparr>double_buffered := True,
                    gr_framebuffer1 :=
                      (gr_framebuffer0 s)
                        \<lparr>data := ptr_add (data (gr_framebuffer0 s))
                                   (frame_bytes (gr_framebuffer0 s))\<rparr>\<rparr>
             else s\<lparr>double_buffered := False\<rparr>)
      in case memset_bytes (data (gr_draw_surface s1)) 0 (frame_bytes (gr_draw_surface s1)) s1 of
           Inl f \<Rightarrow> Inl f
         | Inr s2 \<Rightarrow>
             let s3 = set_displayed_framebuffer (put_vscreeninfo_ok env) 0 (s2\<lparr>fb_fd := fd\<rparr>);
                 s4 = fbdev_blank cfg (blank_ok env) True s3;
                 s5 = fbdev_blank cfg (unblank_ok env) False s4
             in Inr (gr_draw s5, s5\<lparr>smem_len_static := smem_len fi\<rparr>))"

text \<open>
  The middle of \<^verbatim>\<open>fbdev_init\<close>, entered once the device is mapped at \<open>bits\<close>: the
  descriptor of the first front buffer, then the two heap allocations.
\<close>

definition init_surfaces ::
  "config \<Rightarrow> init_env \<Rightarrow> int \<Rightarrow> fb_fix_screeninfo \<Rightarrow> addr \<Rightarrow> fb_state
     \<Rightarrow> fault + (addr option \<times> fb_state)" where
  "init_surfaces cfg env fd fi bits s =
     (let s1 = (if RECOVERY_RGB_565 cfg then s\<lparr>vi := force_rgb_565 fi (vi s)\<rparr> else s);
          s2 = s1\<lparr>gr_framebuffer0 :=
                    \<lparr>width = xres (vi s1), height = yres (vi s1), row_bytes = line_length fi,
                     pixel_bytes = bits_per_pixel (vi s1) div 8, data = FbMem 0,
                     format = fbdev_init_format (vi s1)\<rparr>\<rparr>
      in case memset_bytes (data (gr_framebuffer0 s2)) 0 (frame_bytes (gr_framebuffer0 s2)) s2 of
           Inl f \<Rightarrow> Inl f
         | Inr s3 \<Rightarrow>
             (case malloc_surface env of
                None \<Rightarrow>
                  Inr (None,
                    release (Mapping bits (unat (smem_len fi)))
                      (release (Fd fd)
                        (perror ''failed to allocate gr_draw'' (s3\<lparr>gr_draw := None\<rparr>))))
              | Some a \<Rightarrow>
                  let s4 = (acquire (Block a) s3)
                             \<lparr>gr_draw := Some a, gr_draw_surface := gr_framebuffer0 s3\<rparr>
                  in (case malloc_pixels env of
                        None \<Rightarrow>
                          Inr (None,
                            release (Mapping bits (unat (smem_len fi)))
                              (release (Block a)
                                (release (Fd fd)
                                  (perror ''failed to allocate in-memory surface''
                                    (s4\<lparr>gr_draw_surface := (gr_draw_surface s4)\<lparr>data := NULL\<rparr>\<rparr>)))))
                      | Some b \<Rightarrow>
                          init_buffers cfg env fd fi
                            ((acquire (Block b) s4)
                               \<lparr>gr_draw_surface := (gr_draw_surface s4)\<lparr>data := DrawMem 0\<rparr>,
                                draw_mem :=
                                  map (heap_garbage env)
                                    [0 ..< frame_bytes (gr_draw_surface s4)]\<rparr>))))"

definition fbdev_init :: "config \<Rightarrow> init_env \<Rightarrow> fb_state \<Rightarrow> fault + (addr option \<times> fb_state)" where
  "fbdev_init cfg env s =
     (if open_ret env = - 1 then Inr (None, perror ''cannot open fb0'' s)
      else
        let fd = open_ret env; s1 = acquire (Fd fd) s
        in case fscreeninfo env of
             None \<Rightarrow> Inr (None, release (Fd fd) (perror ''failed to get fb0 info'' s1))
           | Some fi \<Rightarrow>
               (case vscreeninfo env of
                  None \<Rightarrow> Inr (None, release (Fd fd) (perror ''failed to get fb0 info'' s1))
                | Some v \<Rightarrow>
                    let s2 = s1\<lparr>vi := v, shown := v\<rparr>
                    in (case mmap_ret env of
                          None \<Rightarrow>
                            Inr (None,
                              release (Fd fd) (perror ''failed to mmap framebuffer'' s2))
                        | Some bits \<Rightarrow>
                            init_surfaces cfg env fd fi bits
                              ((acquire (Mapping bits (unat (smem_len fi))) s2)
                                 \<lparr>fb_mem := replicate (unat (smem_len fi)) 0\<rparr>))))"

subsection \<open>fbdev_flip\<close>

text \<open>
  The loop under \<^verbatim>\<open>#if defined(RECOVERY_BGRA)\<close>, on the bytes the pointer can address.
  \<open>idx\<close> is an \<^verbatim>\<open>unsigned int\<close>: \<open>idx + 4\<close> wraps, so the loop need not return.
\<close>

partial_function (option) swap_loop :: "u32 \<Rightarrow> u32 \<Rightarrow> byte list \<Rightarrow> (fault + byte list) option" where
  "swap_loop idx n buf =
     (if idx < n then
        (if unat idx < length buf \<and> unat (idx + 2) < length buf then
           swap_loop (idx + 4) n
             (buf[unat idx := buf ! unat (idx + 2), unat (idx + 2) := buf ! unat idx])
         else Some (Inl OutOfBounds))
      else Some (Inr buf))"

declare swap_loop.simps [code]

definition byte_swap :: "fb_state \<Rightarrow> fault + fb_state" where
  "byte_swap s =
     (let g = gr_draw_surface s
      in case swap_loop 0 (height g * row_bytes g) (region (data g) s) of
           None \<Rightarrow> Inl Diverges
         | Some (Inl f) \<Rightarrow> Inl f
         | Some (Inr buf) \<Rightarrow> Inr (store (data g) buf s))"

text \<open>\<^verbatim>\<open>gr_framebuffer[i]\<close> for a C \<^verbatim>\<open>int\<close> index.\<close>

definition gr_framebuffer :: "fb_state \<Rightarrow> int \<Rightarrow> fault + GRSurface" where
  "gr_framebuffer s i =
     (if i = 0 then Inr (gr_framebuffer0 s)
      else if i = 1 then Inr (gr_framebuffer1 s)
      else Inl OutOfBounds)"

text \<open>\<open>ioctl_ok\<close> says whether the page-flip \<^verbatim>\<open>ioctl\<close> of this call succeeds.\<close>

definition fbdev_flip :: "config \<Rightarrow> bool \<Rightarrow> fb_state \<Rightarrow> fault + (addr option \<times> fb_state)" where
  "fbdev_flip cfg ioctl_ok s =
     (case gr_draw s of
        None \<Rightarrow> Inl NullPointer
      | Some h \<Rightarrow>
          if double_buffered s then
            (case (if RECOVERY_BGRA cfg then byte_swap s else Inr s) of
               Inl f \<Rightarrow> Inl f
             | Inr s1 \<Rightarrow>
                 (case gr_framebuffer s1 (1 - displayed_buffer s1) of
                    Inl f \<Rightarrow> Inl f
                  | Inr fb \<Rightarrow>
                      (case memcpy_bytes (data fb) (data (gr_draw_surface s1))
                              (frame_bytes (gr_draw_surface s1)) s1 of
                         Inl f \<Rightarrow> Inl f
                       | Inr s2 \<Rightarrow>
                           Inr (gr_draw s2,
                             set_displayed_framebuffer ioctl_ok
                               (word_of_int (1 - displayed_buffer s2)) s2))))
          else
            (case memcpy_bytes (data (gr_framebuffer0 s)) (data (gr_draw_surface s))
                    (frame_bytes (gr_draw_surface s)) s of
               Inl f \<Rightarrow> Inl f
             | Inr s1 \<Rightarrow> Inr (gr_draw s1, s1)))"

subsection \<open>Sessions\<close>

text \<open>
  The painter is the external collaborator of the backend: between commits it overwrites
  bytes of the drawing surface, and only those. \<open>paint bs\<close> replaces the leading bytes of
  the drawing surface by \<open>bs\<close>, cut to the size of the surface.
\<close>

definition paint :: "byte list \<Rightarrow> fb_state \<Rightarrow> fb_state" where
  "paint bs s =
     s\<lparr>draw_mem := take (length (draw_mem s)) (bs @ drop (length bs) (draw_mem s))\<rparr>"

text \<open>
  What a session does after \<^verbatim>\<open>fbdev_init\<close>: it paints and it commits. \<open>Commit ok\<close> is one
  call of \<^verbatim>\<open>fbdev_flip\<close>; \<open>ok\<close> says whether its page-flip call succeeds.
\<close>

datatype event = Paint "byte list" | Commit bool

text \<open>What one commit shows to an observer.\<close>

record commit_obs =
  returned :: "addr option"
  back_before :: "byte list"
  back_after :: "byte list"
  front_before :: "byte list"
  front_after :: "byte list"
  visible_before :: int
  visible_after :: int
  shown_after :: fb_var_screeninfo

fun session :: "config \<Rightarrow> event list \<Rightarrow> fb_state \<Rightarrow> fault + (commit_obs list \<times> fb_state)" where
  "session cfg [] s = Inr ([], s)"
| "session cfg (Paint bs # evs) s = session cfg evs (paint bs s)"
| "session cfg (Commit ok # evs) s =
     (case fbdev_flip cfg ok s of
        Inl f \<Rightarrow> Inl f
      | Inr (r, s1) \<Rightarrow>
          (case session cfg evs s1 of
             Inl f \<Rightarrow> Inl f
           | Inr (obs, s2) \<Rightarrow>
               Inr (\<lparr>returned = r, back_before = draw_mem s, back_after = draw_mem s1,
                     front_before = fb_mem s, front_after = fb_mem s1,
                     visible_before = displayed_buffer s,
                     visible_after = displayed_buffer s1,
                     shown_after = shown s1\<rparr> # obs, s2)))"

text \<open>The number of commits of a session.\<close>

fun commit_count :: "event list \<Rightarrow> nat" where
  "commit_count [] = 0"
| "commit_count (Paint bs # evs) = commit_count evs"
| "commit_count (Commit ok # evs) = Suc (commit_count evs)"

text \<open>Every page-flip call of the session succeeds.\<close>

fun flips_succeed :: "event list \<Rightarrow> bool" where
  "flips_succeed [] = True"
| "flips_succeed (Paint bs # evs) = flips_succeed evs"
| "flips_succeed (Commit ok # evs) = (ok \<and> flips_succeed evs)"

text \<open>The slots \<open>d, 1 - d, d, ...\<close>: \<open>slots_from 0 4 = [0, 1, 0, 1]\<close>.\<close>

fun slots_from :: "int \<Rightarrow> nat \<Rightarrow> int list" where
  "slots_from d 0 = []"
| "slots_from d (Suc k) = d # slots_from (1 - d) k"

subsection \<open>Invariants of a session\<close>

text \<open>
  The pointers as \<^verbatim>\<open>fbdev_init\<close> sets them: the drawing surface at the start of its heap
  block, the front buffers in the mapping, and with double buffering a visible slot that is
  0 or 1.
\<close>

definition wired :: "fb_state \<Rightarrow> bool" where
  "wired s \<longleftrightarrow>
     data (gr_draw_surface s) = DrawMem 0
     \<and> data (gr_framebuffer0 s) = FbMem 0
     \<and> (if double_buffered s
        then data (gr_framebuffer1 s) = FbMem (frame_bytes (gr_draw_surface s))
          \<and> (displayed_buffer s = 0 \<or> displayed_buffer s = 1)
        else True)"

text \<open>
  On top of the pointers, the sizes: the drawing surface holds exactly one frame, the front
  buffers lie inside the mapping, and where the byte swap runs the frame is a whole number
  of 4-byte pixels.
\<close>

definition layout_ok :: "config \<Rightarrow> fb_state \<Rightarrow> bool" where
  "layout_ok cfg s \<longleftrightarrow>
     wired s
     \<and> gr_draw s \<noteq> None
     \<and> length (draw_mem s) = frame_bytes (gr_draw_surface s)
     \<and> (if double_buffered s
        then 2 * frame_bytes (gr_draw_surface s) \<le> length (fb_mem s)
          \<and> (if RECOVERY_BGRA cfg then 4 dvd frame_bytes (gr_draw_surface s) else True)
        else frame_bytes (gr_draw_surface s) \<le> length (fb_mem s))"

text \<open>
  A device is regular for a build when twice its frame size, \<open>yres * line_length * 2\<close>,
  fits 32 bits, and, where the byte swap is compiled in, the frame is a whole number of
  4-byte pixels.
\<close>

definition regular_device :: "config \<Rightarrow> init_env \<Rightarrow> bool" where
  "regular_device cfg env =
     (case fscreeninfo env of
        None \<Rightarrow> False
      | Some fi \<Rightarrow>
          (case vscreeninfo env of
             None \<Rightarrow> False
           | Some v \<Rightarrow>
               unat (yres v) * unat (line_length fi) * 2 < 2 ^ 32
               \<and> (if RECOVERY_BGRA cfg then 4 dvd unat (yres v) * unat (line_length fi)
                  else True)))"

text \<open>One of the six calls of \<^verbatim>\<open>fbdev_init\<close> that can fail does fail.\<close>

definition init_fails :: "init_env \<Rightarrow> bool" where
  "init_fails env \<longleftrightarrow>
     open_ret env = - 1 \<or> fscreeninfo env = None \<or> vscreeninfo env = None
     \<or> mmap_ret env = None \<or> malloc_surface env = None \<or> malloc_pixels env = None"

text \<open>
  Where \<^verbatim>\<open>fbdev_init\<close> gets as far as the \<^verbatim>\<open>memset\<close> of the first front buffer, which
  precedes the heap allocations, the first frame lies inside the mapping, so that the
  \<^verbatim>\<open>memset\<close> is defined.
\<close>

definition frame_fits :: "init_env \<Rightarrow> bool" where
  "frame_fits env =
     (if open_ret env = - 1 \<or> mmap_ret env = None then True
      else
        (case fscreeninfo env of
           None \<Rightarrow> True
         | Some fi \<Rightarrow>
             (case vscreeninfo env of
                None \<Rightarrow> True
              | Some v \<Rightarrow> unat (yres v * line_length fi) \<le> unat (smem_len fi))))"

subsection \<open>The commit in the spec's words\<close>

text \<open>
  The channel swap: in every group of four bytes, byte 0 and byte 2 change places and
  bytes 1 and 3 stay.
\<close>

definition swap_index :: "nat \<Rightarrow> nat" where
  "swap_index i = (if i mod 4 = 0 then i + 2 else if i mod 4 = 2 then i - 2 else i)"

definition spec_channel_swap :: "byte list \<Rightarrow> byte list" where
  "spec_channel_swap buf = map (\<lambda>i. buf ! swap_index i) [0 ..< length buf]"

text \<open>The bytes a commit sends to the front buffer, and the offset of the slot it writes.\<close>

definition committed :: "config \<Rightarrow> fb_state \<Rightarrow> byte list" where
  "committed cfg s =
     (if RECOVERY_BGRA cfg \<and> double_buffered s then spec_channel_swap (draw_mem s)
      else draw_mem s)"

definition target_offset :: "fb_state \<Rightarrow> nat" where
  "target_offset s =
     (if double_buffered s \<and> displayed_buffer s = 0 then frame_bytes (gr_draw_surface s)
      else 0)"

subsection \<open>Concrete inputs\<close>

definition default_config :: config where
  "default_config =
     \<lparr>RECOVERY_RGB_565 = False, RECOVERY_BGRA = False, TW_NO_SCREEN_BLANK = False,
      TW_BRIGHTNESS_PATH = False, TW_MAX_BRIGHTNESS = False\<rparr>"

definition bgra_config :: config where
  "bgra_config = default_config\<lparr>RECOVERY_BGRA := True\<rparr>"

text \<open>
  A device of the given height, stride and mapped length (32 bits per pixel, red at bit
  16) on which every system call of \<^verbatim>\<open>fbdev_init\<close> succeeds.
\<close>

definition device :: "u32 \<Rightarrow> u32 \<Rightarrow> u32 \<Rightarrow> init_env" where
  "device h stride len =
     \<lparr>open_ret = 3,
      fscreeninfo = Some \<lparr>smem_len = len, line_length = stride\<rparr>,
      vscreeninfo = Some (descriptor 1 h 32 (bitfield 16 8) (bitfield 8 8) (bitfield 0 8)),
      mmap_ret = Some 4096, malloc_surface = Some 100, malloc_pixels = Some 200,
      heap_garbage = (\<lambda>_. 170), put_vscreeninfo_ok = True, blank_ok = True,
      unblank_ok = True\<rparr>"

definition state_of :: "fault + ('a \<times> fb_state) \<Rightarrow> fb_state" where
  "state_of r = (case r of Inr (_, s) \<Rightarrow> s | Inl _ \<Rightarrow> initial_state)"

definition observed :: "fault + (commit_obs list \<times> fb_state) \<Rightarrow> commit_obs list" where
  "observed r = (case r of Inr (obs, _) \<Rightarrow> obs | Inl _ \<Rightarrow> [])"

text \<open>The state after \<^verbatim>\<open>fbdev_init\<close> on a one-pixel device with room for two frames, and with
  room for one.\<close>

definition double_session :: "config \<Rightarrow> fb_state" where
  "double_session cfg = state_of (fbdev_init cfg (device 1 4 8) initial_state)"

definition single_session :: "config \<Rightarrow> fb_state" where
  "single_session cfg = state_of (fbdev_init cfg (device 1 4 4) initial_state)"

text \<open>The state after \<^verbatim>\<open>fbdev_init\<close> on a device that reports 65536 lines of 65536 bytes and
  8 bytes of memory.\<close>

definition wrapping_session :: fb_state where
  "wrapping_session = state_of (fbdev_init default_config (device 65536 65536 8) initial_state)"

definition no_pixels :: init_env where
  "no_pixels = (device 1 4 8)\<lparr>malloc_pixels := None\<rparr>"

definition no_device :: init_env where
  "no_device = (device 1 4 8)\<lparr>open_ret := - 1\<rparr>"

definition demo_events :: "event list" where
  "demo_events = [Paint [1, 2, 3, 4], Commit True, Commit False, Commit True, Commit True]"

text \<open>A session whose page-flip calls all succeed, and a session of one commit.\<close>

definition demo_flips :: "event list" where
  "demo_flips = [Paint [1, 2, 3, 4], Commit True, Commit True, Commit True, Commit True]"


definition demo_obs :: "config \<Rightarrow> commit_obs list" where
  "demo_obs cfg = observed (session cfg demo_events (double_session cfg))"

section \<open>Properties\<close>

subsection \<open>Format selection\<close>

text \<open>
  C1, as the code has it. For a descriptor with bits-per-pixel other than 16 and a red
  offset that is none of 0, 8 and 24, the selected tag is RGBX_8888 when the red length
  is 8, the tag of the case "red offset is 24", and RGB_565 otherwise, the tag of the
  case "16 bits per pixel".
\<close>

theorem fallback_format:
  assumes "bits_per_pixel v \<noteq> 16"
    and "offset (red v) \<notin> {0, 8, 24}"
  shows "fbdev_init_format v =
           (if length_f (red v) = 8
            then fbdev_init_format (v\<lparr>red := (red v)\<lparr>offset := 24\<rparr>\<rparr>)
            else fbdev_init_format (v\<lparr>bits_per_pixel := 16\<rparr>))
         \<and> fbdev_init_format (v\<lparr>red := (red v)\<lparr>offset := 24\<rparr>\<rparr>) = GGL_PIXEL_FORMAT_RGBX_8888
         \<and> fbdev_init_format (v\<lparr>bits_per_pixel := 16\<rparr>) = GGL_PIXEL_FORMAT_RGB_565"
  using assms by (simp add: fbdev_init_format_def)

theorem fallback_format_witness:
  "bits_per_pixel (descriptor 2 2 32 (bitfield 16 8) (bitfield 8 8) (bitfield 0 8)) \<noteq> 16
   \<and> offset (red (descriptor 2 2 32 (bitfield 16 8) (bitfield 8 8) (bitfield 0 8))) \<notin> {0, 8, 24}
   \<and> fbdev_init_format (descriptor 2 2 32 (bitfield 16 8) (bitfield 8 8) (bitfield 0 8))
       = GGL_PIXEL_FORMAT_RGBX_8888
   \<and> fbdev_init_format (descriptor 2 2 32 (bitfield 16 5) (bitfield 8 8) (bitfield 0 8))
       = GGL_PIXEL_FORMAT_RGB_565"
  using fallback_format [of "descriptor 2 2 32 (bitfield 16 8) (bitfield 8 8) (bitfield 0 8)"]
    fallback_format [of "descriptor 2 2 32 (bitfield 16 5) (bitfield 8 8) (bitfield 0 8)"]
  by (simp add: descriptor_def bitfield_def)

text \<open>
  C1, as the spec words it, fails: with 32 bits per pixel, red offset 16 and red length 8
  the selected tag is not the tag of the case "red offset is 0" (RGBA_8888).
\<close>

theorem fallback_format_not_rgba:
  "bits_per_pixel (descriptor 2 2 32 (bitfield 16 8) (bitfield 8 8) (bitfield 0 8)) \<noteq> 16
   \<and> offset (red (descriptor 2 2 32 (bitfield 16 8) (bitfield 8 8) (bitfield 0 8))) \<notin> {0, 8, 24}
   \<and> length_f (red (descriptor 2 2 32 (bitfield 16 8) (bitfield 8 8) (bitfield 0 8))) = 8
   \<and> fbdev_init_format (descriptor 2 2 32 (bitfield 16 8) (bitfield 8 8) (bitfield 0 8))
       \<noteq> GGL_PIXEL_FORMAT_RGBA_8888
   \<and> fbdev_init_format (descriptor 2 2 32 (bitfield 16 8) (bitfield 8 8) (bitfield 0 8))
       \<noteq> fbdev_init_format (descriptor 2 2 32 (bitfield 0 8) (bitfield 8 8) (bitfield 16 8))"
  by (simp add: fbdev_init_format_def descriptor_def bitfield_def)

text \<open>
  C4. The selected tag is a function of bits-per-pixel, red offset and red length alone,
  and it follows the first-match order: 16 bits per pixel gives RGB_565 whatever the
  channel offsets are; otherwise red offset 8 gives BGRA_8888 whatever the green and blue
  fields are; otherwise red offset 0 gives RGBA_8888; otherwise red offset 24 gives
  RGBX_8888.
\<close>

theorem format_decision_order:
  "(bits_per_pixel v = 16 \<longrightarrow> fbdev_init_format v = GGL_PIXEL_FORMAT_RGB_565)
   \<and> (bits_per_pixel v \<noteq> 16 \<and> offset (red v) = 8 \<longrightarrow>
        fbdev_init_format v = GGL_PIXEL_FORMAT_BGRA_8888
        \<and> fbdev_init_format (v\<lparr>green := g, blue := b\<rparr>) = GGL_PIXEL_FORMAT_BGRA_8888)
   \<and> (bits_per_pixel v \<noteq> 16 \<and> offset (red v) = 0 \<longrightarrow>
        fbdev_init_format v = GGL_PIXEL_FORMAT_RGBA_8888)
   \<and> (bits_per_pixel v \<noteq> 16 \<and> offset (red v) = 24 \<longrightarrow>
        fbdev_init_format v = GGL_PIXEL_FORMAT_RGBX_8888)
   \<and> (bits_per_pixel v = bits_per_pixel v' \<and> offset (red v) = offset (red v')
        \<and> length_f (red v) = length_f (red v') \<longrightarrow>
        fbdev_init_format v = fbdev_init_format v')"
  by (simp add: fbdev_init_format_def)

theorem format_decision_order_witness:
  "fbdev_init_format (descriptor 2 2 16 (bitfield 8 8) (bitfield 0 8) (bitfield 24 8))
     = GGL_PIXEL_FORMAT_RGB_565
   \<and> fbdev_init_format (descriptor 2 2 32 (bitfield 8 8) (bitfield 5 6) (bitfield 7 7))
     = GGL_PIXEL_FORMAT_BGRA_8888
   \<and> fbdev_init_format (descriptor 2 2 32 (bitfield 0 8) (bitfield 8 8) (bitfield 16 8))
     = GGL_PIXEL_FORMAT_RGBA_8888
   \<and> fbdev_init_format (descriptor 2 2 32 (bitfield 24 8) (bitfield 16 8) (bitfield 8 8))
     = GGL_PIXEL_FORMAT_RGBX_8888
   \<and> fbdev_init_format (descriptor 2 2 32 (bitfield 16 8) (bitfield 8 8) (bitfield 0 8))
     = fbdev_init_format (descriptor 9 9 32 (bitfield 16 8) (bitfield 3 3) (bitfield 4 4))"
  using format_decision_order
      [of "descriptor 2 2 16 (bitfield 8 8) (bitfield 0 8) (bitfield 24 8)" _ _ _]
    format_decision_order
      [of "descriptor 2 2 32 (bitfield 8 8) (bitfield 5 6) (bitfield 7 7)"
        "bitfield 5 6" "bitfield 7 7" _]
    format_decision_order
      [of "descriptor 2 2 32 (bitfield 0 8) (bitfield 8 8) (bitfield 16 8)" _ _ _]
    format_decision_order
      [of "descriptor 2 2 32 (bitfield 24 8) (bitfield 16 8) (bitfield 8 8)" _ _ _]
    format_decision_order
      [of "descriptor 2 2 32 (bitfield 16 8) (bitfield 8 8) (bitfield 0 8)" _ _
        "descriptor 9 9 32 (bitfield 16 8) (bitfield 3 3) (bitfield 4 4)"]
  by (simp add: descriptor_def bitfield_def)

subsection \<open>Field lemmas\<close>

lemma perror_fields [simp]:
  "gr_framebuffer0 (perror m s) = gr_framebuffer0 s"
  "gr_framebuffer1 (perror m s) = gr_framebuffer1 s"
  "double_buffered (perror m s) = double_buffered s"
  "gr_draw (perror m s) = gr_draw s"
  "gr_draw_surface (perror m s) = gr_draw_surface s"
  "displayed_buffer (perror m s) = displayed_buffer s"
  "vi (perror m s) = vi s"
  "shown (perror m s) = shown s"
  "fb_mem (perror m s) = fb_mem s"
  "draw_mem (perror m s) = draw_mem s"
  "live (perror m s) = live s"
  "stderr_log (perror m s) = stderr_log s @ [m]"
  by (simp_all add: perror_def)

lemma acquire_fields [simp]:
  "gr_framebuffer0 (acquire r s) = gr_framebuffer0 s"
  "gr_framebuffer1 (acquire r s) = gr_framebuffer1 s"
  "double_buffered (acquire r s) = double_buffered s"
  "gr_draw (acquire r s) = gr_draw s"
  "gr_draw_surface (acquire r s) = gr_draw_surface s"
  "displayed_buffer (acquire r s) = displayed_buffer s"
  "vi (acquire r s) = vi s"
  "shown (acquire r s) = shown s"
  "fb_mem (acquire r s) = fb_mem s"
  "draw_mem (acquire r s) = draw_mem s"
  "live (acquire r s) = r # live s"
  "stderr_log (acquire r s) = stderr_log s"
  by (simp_all add: acquire_def)

lemma release_fields [simp]:
  "live (release r s) = remove1 r (live s)"
  "stderr_log (release r s) = stderr_log s"
  by (simp_all add: release_def)

lemma store_fields [simp]:
  "gr_framebuffer0 (store p bs s) = gr_framebuffer0 s"
  "gr_framebuffer1 (store p bs s) = gr_framebuffer1 s"
  "double_buffered (store p bs s) = double_buffered s"
  "gr_draw (store p bs s) = gr_draw s"
  "gr_draw_surface (store p bs s) = gr_draw_surface s"
  "displayed_buffer (store p bs s) = displayed_buffer s"
  "vi (store p bs s) = vi s"
  "shown (store p bs s) = shown s"
  "live (store p bs s) = live s"
  "stderr_log (store p bs s) = stderr_log s"
  by (simp_all add: store_def split: ptr.splits)

lemma store_mem [simp]:
  "fb_mem (store (FbMem off) bs s)
     = take off (fb_mem s) @ bs @ drop (off + length bs) (fb_mem s)"
  "draw_mem (store (FbMem off) bs s) = draw_mem s"
  "draw_mem (store (DrawMem off) bs s)
     = take off (draw_mem s) @ bs @ drop (off + length bs) (draw_mem s)"
  "fb_mem (store (DrawMem off) bs s) = fb_mem s"
  by (simp_all add: store_def)

lemma fbdev_blank_fields [simp]:
  "double_buffered (fbdev_blank cfg ok b s) = double_buffered s"
  "gr_draw (fbdev_blank cfg ok b s) = gr_draw s"
  "gr_draw_surface (fbdev_blank cfg ok b s) = gr_draw_surface s"
  "gr_framebuffer0 (fbdev_blank cfg ok b s) = gr_framebuffer0 s"
  "gr_framebuffer1 (fbdev_blank cfg ok b s) = gr_framebuffer1 s"
  "displayed_buffer (fbdev_blank cfg ok b s) = displayed_buffer s"
  "vi (fbdev_blank cfg ok b s) = vi s"
  "shown (fbdev_blank cfg ok b s) = shown s"
  "fb_mem (fbdev_blank cfg ok b s) = fb_mem s"
  "draw_mem (fbdev_blank cfg ok b s) = draw_mem s"
  "live (fbdev_blank cfg ok b s) = live s"
  by (simp_all add: fbdev_blank_def)

lemma set_displayed_framebuffer_fields [simp]:
  "double_buffered (set_displayed_framebuffer ok n s) = double_buffered s"
  "gr_draw (set_displayed_framebuffer ok n s) = gr_draw s"
  "gr_draw_surface (set_displayed_framebuffer ok n s) = gr_draw_surface s"
  "gr_framebuffer0 (set_displayed_framebuffer ok n s) = gr_framebuffer0 s"
  "gr_framebuffer1 (set_displayed_framebuffer ok n s) = gr_framebuffer1 s"
  "fb_mem (set_displayed_framebuffer ok n s) = fb_mem s"
  "draw_mem (set_displayed_framebuffer ok n s) = draw_mem s"
  "live (set_displayed_framebuffer ok n s) = live s"
  by (simp_all add: set_displayed_framebuffer_def Let_def)

lemma set_displayed_framebuffer_slot:
  "displayed_buffer (set_displayed_framebuffer ok 0 s)
     = (if double_buffered s then 0 else displayed_buffer s)"
  "displayed_buffer (set_displayed_framebuffer ok 1 s)
     = (if double_buffered s then 1 else displayed_buffer s)"
  by (simp_all add: set_displayed_framebuffer_def Let_def)

lemma set_displayed_framebuffer_vi:
  "vi (set_displayed_framebuffer ok 0 s)
     = (if double_buffered s
        then (vi s)\<lparr>yres_virtual := height (gr_framebuffer0 s) * 2, yoffset := 0,
                    bits_per_pixel := pixel_bytes (gr_framebuffer0 s) * 8\<rparr>
        else vi s)"
  "vi (set_displayed_framebuffer ok 1 s)
     = (if double_buffered s
        then (vi s)\<lparr>yres_virtual := height (gr_framebuffer0 s) * 2,
                    yoffset := height (gr_framebuffer0 s),
                    bits_per_pixel := pixel_bytes (gr_framebuffer0 s) * 8\<rparr>
        else vi s)"
  "shown (set_displayed_framebuffer ok n s)
     = (if ok \<and> n \<le> 1 \<and> double_buffered s then vi (set_displayed_framebuffer ok n s)
        else shown s)"
  by (auto simp: set_displayed_framebuffer_def Let_def not_less)

lemma force_rgb_565_yres [simp]: "yres (force_rgb_565 fi v) = yres v"
  by (simp add: force_rgb_565_def)

lemma paint_fields [simp]:
  "gr_framebuffer0 (paint bs s) = gr_framebuffer0 s"
  "gr_framebuffer1 (paint bs s) = gr_framebuffer1 s"
  "double_buffered (paint bs s) = double_buffered s"
  "gr_draw (paint bs s) = gr_draw s"
  "gr_draw_surface (paint bs s) = gr_draw_surface s"
  "displayed_buffer (paint bs s) = displayed_buffer s"
  "vi (paint bs s) = vi s"
  "shown (paint bs s) = shown s"
  "fb_mem (paint bs s) = fb_mem s"
  "live (paint bs s) = live s"
  "length (draw_mem (paint bs s)) = length (draw_mem s)"
  by (simp_all add: paint_def)

subsection \<open>Visible-slot selection\<close>

lemma word_le_1_cases: "n \<le> (1::u32) \<Longrightarrow> n = 0 \<or> n = 1"
proof -
  assume "n \<le> 1"
  then have "unat n \<le> 1" by (simp add: word_le_nat_alt)
  then have "unat n = 0 \<or> unat n = 1" by arith
  then show ?thesis by (auto simp: word_unat_eq_iff)
qed

text \<open>
  C7. \<^verbatim>\<open>set_displayed_framebuffer\<close> leaves the whole state as it is unless double buffering
  is active and the requested slot is 0 or 1; in particular a request for slot 1 in
  single-buffered mode leaves the visible slot at 0. When it acts, it records the
  requested slot as displayed whether or not the page-flip call succeeds; a failed call is
  reported by one message and changes nothing else: memory and resources stay as they were.
  The call rewrites the virtual height, the vertical offset and the depth of \<^verbatim>\<open>vi\<close>, and
  the driver takes that descriptor exactly when the page-flip call succeeds.
\<close>

theorem set_displayed_framebuffer_effect:
  "(n > 1 \<or> \<not> double_buffered s \<longrightarrow> set_displayed_framebuffer ok n s = s)
   \<and> (\<not> double_buffered s \<and> displayed_buffer s = 0 \<longrightarrow>
        displayed_buffer (set_displayed_framebuffer ok 1 s) = 0)
   \<and> (n \<le> 1 \<and> double_buffered s \<longrightarrow>
        displayed_buffer (set_displayed_framebuffer ok n s) = uint n
        \<and> stderr_log (set_displayed_framebuffer ok n s) =
            (if ok then stderr_log s else stderr_log s @ [''active fb swap failed''])
        \<and> fb_mem (set_displayed_framebuffer ok n s) = fb_mem s
        \<and> draw_mem (set_displayed_framebuffer ok n s) = draw_mem s
        \<and> live (set_displayed_framebuffer ok n s) = live s
        \<and> vi (set_displayed_framebuffer ok n s) =
            (vi s)\<lparr>yres_virtual := height (gr_framebuffer0 s) * 2,
                   yoffset := n * height (gr_framebuffer0 s),
                   bits_per_pixel := pixel_bytes (gr_framebuffer0 s) * 8\<rparr>
        \<and> shown (set_displayed_framebuffer ok n s) =
            (if ok then vi (set_displayed_framebuffer ok n s) else shown s))"
  using word_le_1_cases [of n]
  by (auto simp add: set_displayed_framebuffer_def Let_def)

lemma double_session_facts:
  "double_buffered (double_session default_config)"
  "displayed_buffer (double_session default_config) = 0"
  "stderr_log (double_session default_config) = []"
  by code_simp+

lemma single_session_facts:
  "\<not> double_buffered (single_session default_config)"
  "displayed_buffer (single_session default_config) = 0"
  by code_simp+

theorem set_displayed_framebuffer_effect_witness:
  "(1::u32) \<le> 1 \<and> double_buffered (double_session default_config)
   \<and> displayed_buffer (set_displayed_framebuffer False 1 (double_session default_config)) = 1
   \<and> stderr_log (set_displayed_framebuffer False 1 (double_session default_config))
       = [''active fb swap failed'']
   \<and> \<not> double_buffered (single_session default_config)
   \<and> set_displayed_framebuffer True 1 (single_session default_config)
       = single_session default_config
   \<and> displayed_buffer (set_displayed_framebuffer True 1 (single_session default_config)) = 0"
  using set_displayed_framebuffer_effect [of 1 "double_session default_config" False]
    set_displayed_framebuffer_effect [of 1 "single_session default_config" True]
    double_session_facts single_session_facts
  by simp

subsection \<open>Failure paths of fbdev_init\<close>

lemma init_surfaces_failure:
  assumes "malloc_surface env = None \<or> malloc_pixels env = None"
    and "unat (yres (vi s) * line_length fi) \<le> length (fb_mem s)"
    and "live s = Mapping bits (unat (smem_len fi)) # Fd fd # l"
  shows "\<exists>s' msg. init_surfaces cfg env fd fi bits s = Inr (None, s')
           \<and> live s' = l \<and> stderr_log s' = stderr_log s @ [msg]"
  using assms
  by (auto simp: init_surfaces_def Let_def memset_bytes_def region_def frame_bytes_def
      split: option.splits)

text \<open>
  C10. On every failure path of \<^verbatim>\<open>fbdev_init\<close> (the open fails, either descriptor query
  fails, the mapping fails, either heap allocation fails) the call returns the null
  surface, reports the error by one message, and holds exactly the resources it held
  before: the descriptor, the mapping and the heap block acquired in the call are released.
  For the two allocation failures the first frame is taken to lie inside the mapping;
  otherwise the \<^verbatim>\<open>memset\<close> that precedes the allocations is undefined.
\<close>

theorem init_failure_rollback:
  assumes "init_fails env" and "frame_fits env"
  shows "\<exists>s' msg. fbdev_init cfg env s = Inr (None, s')
           \<and> live s' = live s \<and> stderr_log s' = stderr_log s @ [msg]"
proof (cases "open_ret env = - 1 \<or> fscreeninfo env = None \<or> vscreeninfo env = None
                \<or> mmap_ret env = None")
  case True
  then show ?thesis
    by (auto simp: fbdev_init_def Let_def split: option.splits)
next
  case False
  then obtain fi v bits where e: "open_ret env \<noteq> - 1" "fscreeninfo env = Some fi"
    "vscreeninfo env = Some v" "mmap_ret env = Some bits"
    by auto
  from False assms(1) have m: "malloc_surface env = None \<or> malloc_pixels env = None"
    by (auto simp: init_fails_def)
  from assms(2) e have f: "unat (yres v * line_length fi) \<le> unat (smem_len fi)"
    by (simp add: frame_fits_def)
  let ?s = "(acquire (Mapping bits (unat (smem_len fi))) ((acquire (Fd (open_ret env)) s)\<lparr>vi := v, shown := v\<rparr>))
             \<lparr>fb_mem := replicate (unat (smem_len fi)) 0\<rparr>"
  have "\<exists>s' msg. init_surfaces cfg env (open_ret env) fi bits ?s = Inr (None, s')
           \<and> live s' = live s \<and> stderr_log s' = stderr_log ?s @ [msg]"
    by (rule init_surfaces_failure [OF m]) (use f in \<open>simp_all add: acquire_def\<close>)
  then show ?thesis using e
    by (simp add: fbdev_init_def Let_def acquire_def)
qed


lemma failing_env_facts:
  "init_fails no_pixels" "frame_fits no_pixels"
  "init_fails no_device" "frame_fits no_device"
  by (simp_all add: init_fails_def frame_fits_def no_pixels_def no_device_def device_def descriptor_def)

lemma failing_init_values:
  "stderr_log (state_of (fbdev_init default_config no_pixels initial_state))
     = [''failed to allocate in-memory surface'']"
  "stderr_log (state_of (fbdev_init default_config no_device initial_state))
     = [''cannot open fb0'']"
  by code_simp+

theorem init_failure_rollback_witness:
  "init_fails no_pixels \<and> frame_fits no_pixels
   \<and> fbdev_init default_config no_pixels initial_state
       = Inr (None, state_of (fbdev_init default_config no_pixels initial_state))
   \<and> live (state_of (fbdev_init default_config no_pixels initial_state)) = []
   \<and> stderr_log (state_of (fbdev_init default_config no_pixels initial_state))
       = [''failed to allocate in-memory surface'']
   \<and> init_fails no_device \<and> frame_fits no_device
   \<and> fbdev_init default_config no_device initial_state
       = Inr (None, state_of (fbdev_init default_config no_device initial_state))
   \<and> live (state_of (fbdev_init default_config no_device initial_state)) = []
   \<and> stderr_log (state_of (fbdev_init default_config no_device initial_state))
       = [''cannot open fb0'']"
proof -
  have l: "live initial_state = []" by (simp add: initial_state_def)
  from init_failure_rollback [OF failing_env_facts(1,2), of default_config initial_state]
    init_failure_rollback [OF failing_env_facts(3,4), of default_config initial_state]
  show ?thesis
    using failing_env_facts failing_init_values l
    by (auto simp: state_of_def)
qed

subsection \<open>A successful fbdev_init\<close>

lemma unat_frame:
  fixes y l :: u32
  assumes "unat y * unat l * 2 < 2 ^ 32"
  shows "unat (y * l) = unat y * unat l" and "unat (y * l * 2) = unat y * unat l * 2"
proof -
  define p where "p = unat y * unat l"
  from assms have p2: "p * 2 < 2 ^ 32" by (simp add: p_def)
  then have "p < 2 ^ LENGTH(32)" by simp
  then show a: "unat (y * l) = unat y * unat l"
    unfolding p_def by (simp only: unat_mult_lem)
  from p2 a have "unat (y * l) * unat (2::u32) < 2 ^ LENGTH(32)" by (simp add: p_def)
  then have "unat (y * l * 2) = unat (y * l) * unat (2::u32)"
    by (simp only: unat_mult_lem)
  with a show "unat (y * l * 2) = unat y * unat l * 2" by simp
qed

lemma init_buffers_success:
  assumes "init_buffers cfg env fd fi s = Inr (r, s')"
    and "data (gr_draw_surface s) = DrawMem 0"
  shows "r = gr_draw s
      \<and> double_buffered s' = (yres (vi s) * line_length fi * 2 \<le> smem_len fi)
      \<and> gr_draw s' = gr_draw s
      \<and> gr_draw_surface s' = gr_draw_surface s
      \<and> draw_mem s' = replicate (frame_bytes (gr_draw_surface s)) 0 @ drop (frame_bytes (gr_draw_surface s)) (draw_mem s)
      \<and> fb_mem s' = fb_mem s
      \<and> gr_framebuffer0 s' = gr_framebuffer0 s
      \<and> (double_buffered s' \<longrightarrow> displayed_buffer s' = 0
            \<and> gr_framebuffer1 s' = (gr_framebuffer0 s)\<lparr>data := ptr_add (data (gr_framebuffer0 s)) (frame_bytes (gr_framebuffer0 s))\<rparr>)
      \<and> (\<not> double_buffered s' \<longrightarrow> displayed_buffer s' = displayed_buffer s)
      \<and> live s' = live s"
proof (cases "yres (vi s) * line_length fi * 2 \<le> smem_len fi")
  case True
  with assms show ?thesis
    by (auto simp add: init_buffers_def Let_def memset_bytes_def region_def
          set_displayed_framebuffer_slot split: if_splits)
next
  case False
  with assms show ?thesis
    by (auto simp add: init_buffers_def Let_def memset_bytes_def region_def
          set_displayed_framebuffer_slot split: if_splits)
qed

lemma init_surfaces_success:
  assumes "init_surfaces cfg env fd fi bits s = Inr (Some h, s')"
  shows "\<exists>b. malloc_surface env = Some h \<and> malloc_pixels env = Some b
      \<and> unat (yres (vi s) * line_length fi) \<le> length (fb_mem s)
      \<and> double_buffered s' = (yres (vi s) * line_length fi * 2 \<le> smem_len fi)
      \<and> gr_draw s' = Some h
      \<and> data (gr_draw_surface s') = DrawMem 0
      \<and> height (gr_draw_surface s') = yres (vi s)
      \<and> row_bytes (gr_draw_surface s') = line_length fi
      \<and> draw_mem s' = replicate (unat (yres (vi s) * line_length fi)) 0
      \<and> fb_mem s' = replicate (unat (yres (vi s) * line_length fi)) 0
                       @ drop (unat (yres (vi s) * line_length fi)) (fb_mem s)
      \<and> data (gr_framebuffer0 s') = FbMem 0
      \<and> (double_buffered s' \<longrightarrow> displayed_buffer s' = 0
            \<and> data (gr_framebuffer1 s') = FbMem (unat (yres (vi s) * line_length fi)))
      \<and> (\<not> double_buffered s' \<longrightarrow> displayed_buffer s' = displayed_buffer s)
      \<and> live s' = Block b # Block h # live s"
  using assms
  apply (simp add: init_surfaces_def Let_def memset_bytes_def region_def frame_bytes_def
          split: if_splits option.splits)
   apply (drule init_buffers_success, simp)
   apply (simp add: frame_bytes_def ptr_add_def)
  apply (drule init_buffers_success, simp)
  apply (simp add: frame_bytes_def ptr_add_def)
  done

lemma fbdev_init_success:
  assumes "fbdev_init cfg env s = Inr (Some h, s')"
  shows "\<exists>fi v bits b.
      fscreeninfo env = Some fi \<and> vscreeninfo env = Some v \<and> mmap_ret env = Some bits
      \<and> malloc_surface env = Some h \<and> malloc_pixels env = Some b
      \<and> unat (yres v * line_length fi) \<le> unat (smem_len fi)
      \<and> double_buffered s' = (yres v * line_length fi * 2 \<le> smem_len fi)
      \<and> gr_draw s' = Some h
      \<and> data (gr_draw_surface s') = DrawMem 0
      \<and> height (gr_draw_surface s') = yres v
      \<and> row_bytes (gr_draw_surface s') = line_length fi
      \<and> draw_mem s' = replicate (unat (yres v * line_length fi)) 0
      \<and> fb_mem s' = replicate (unat (smem_len fi)) 0
      \<and> data (gr_framebuffer0 s') = FbMem 0
      \<and> (double_buffered s' \<longrightarrow> displayed_buffer s' = 0
            \<and> data (gr_framebuffer1 s') = FbMem (unat (yres v * line_length fi)))
      \<and> (\<not> double_buffered s' \<longrightarrow> displayed_buffer s' = displayed_buffer s)
      \<and> live s' = Block b # Block h # Mapping bits (unat (smem_len fi)) # Fd (open_ret env) # live s"
  using assms
  apply (simp add: fbdev_init_def Let_def split: if_splits option.splits)
  apply (drule init_surfaces_success)
  apply (clarsimp simp: replicate_add [symmetric])
  done

lemma init_wired:
  assumes "fbdev_init cfg env s = Inr (Some h, s')"
  shows "wired s'" and "gr_draw s' = Some h"
    and "double_buffered s' \<Longrightarrow> displayed_buffer s' = 0"
    and "draw_mem s' = replicate (frame_bytes (gr_draw_surface s')) 0"
  using fbdev_init_success [OF assms]
  by (auto simp: wired_def frame_bytes_def)

lemma init_layout_ok:
  assumes "fbdev_init cfg env s = Inr (Some h, s')" and "regular_device cfg env"
  shows "layout_ok cfg s'"
proof -
  from fbdev_init_success [OF assms(1)] obtain fi v where
    e: "fscreeninfo env = Some fi" "vscreeninfo env = Some v"
    and fit: "unat (yres v * line_length fi) \<le> unat (smem_len fi)"
    and db: "double_buffered s' = (yres v * line_length fi * 2 \<le> smem_len fi)"
    and g: "height (gr_draw_surface s') = yres v" "row_bytes (gr_draw_surface s') = line_length fi"
       "draw_mem s' = replicate (unat (yres v * line_length fi)) 0"
       "fb_mem s' = replicate (unat (smem_len fi)) 0"
    by auto
  from assms(2) e have r: "unat (yres v) * unat (line_length fi) * 2 < 2 ^ 32"
    and p: "RECOVERY_BGRA cfg \<Longrightarrow> 4 dvd unat (yres v) * unat (line_length fi)"
    by (simp_all add: regular_device_def)
  have n: "frame_bytes (gr_draw_surface s') = unat (yres v) * unat (line_length fi)"
    by (simp add: frame_bytes_def g unat_frame(1) [OF r])
  have two: "double_buffered s' \<Longrightarrow> 2 * frame_bytes (gr_draw_surface s') \<le> length (fb_mem s')"
    using db by (simp add: n g word_le_nat_alt unat_frame(2) [OF r])
  have one: "frame_bytes (gr_draw_surface s') \<le> length (fb_mem s')"
    using fit by (simp add: frame_bytes_def g)
  show ?thesis
    using init_wired [OF assms(1)] two one p
    by (simp add: layout_ok_def n g unat_frame(1) [OF r])
qed


text \<open>The device's side of a successful \<^verbatim>\<open>fbdev_init\<close>.\<close>

lemma init_buffers_device:
  assumes "init_buffers cfg env fd fi s = Inr (r, s')"
  shows "yres (vi s') = yres (vi s)"
    and "double_buffered s' \<Longrightarrow> yoffset (vi s') = 0
           \<and> yres_virtual (vi s') = height (gr_framebuffer0 s) * 2
           \<and> (put_vscreeninfo_ok env \<longrightarrow> shown s' = vi s')"
  using assms
  by (auto simp add: init_buffers_def Let_def memset_bytes_def
        set_displayed_framebuffer_vi split: if_splits)

lemma init_surfaces_device:
  assumes "init_surfaces cfg env fd fi bits s = Inr (Some h, s')"
  shows "height (gr_framebuffer0 s') = yres (vi s)"
    and "double_buffered s' \<Longrightarrow> yoffset (vi s') = 0
           \<and> yres_virtual (vi s') = yres (vi s) * 2
           \<and> (put_vscreeninfo_ok env \<longrightarrow> shown s' = vi s')"
  using assms
   apply (simp_all add: init_surfaces_def Let_def memset_bytes_def
          split: if_splits option.splits)
     apply (frule init_buffers_success, simp, simp)
     apply (frule init_buffers_success, simp, simp)
   apply (frule init_buffers_device(2), simp, simp)
   apply (frule init_buffers_device(2), simp, simp)
  done

lemma fbdev_init_device:
  assumes "fbdev_init cfg env s = Inr (Some h, s')" and "vscreeninfo env = Some v"
  shows "height (gr_framebuffer0 s') = yres v"
    and "double_buffered s' \<Longrightarrow> yoffset (vi s') = 0
           \<and> yres_virtual (vi s') = yres v * 2
           \<and> (put_vscreeninfo_ok env \<longrightarrow> shown s' = vi s')"
  using assms
   apply (simp_all add: fbdev_init_def Let_def split: if_splits option.splits)
   apply (drule init_surfaces_device(1), simp)
  apply (frule init_surfaces_device(2), simp, simp)
  done

subsection \<open>The choice of double buffering\<close>

text \<open>
  What a successful \<^verbatim>\<open>fbdev_init\<close> computes: it selects double buffering if and only if
  \<open>yres * line_length * 2 \<le> smem_len\<close> holds for the 32-bit unsigned product, whatever the
  build configuration. Memory for exactly two frames gives double buffering, and whenever
  the doubled frame size fits 32 bits the comparison is that of the natural numbers.
\<close>

lemma double_buffering_choice:
  assumes "fbdev_init cfg env s = Inr (Some h, s')"
    and "fscreeninfo env = Some fi" and "vscreeninfo env = Some v"
  shows "(double_buffered s' \<longleftrightarrow> yres v * line_length fi * 2 \<le> smem_len fi)
     \<and> (unat (yres v) * unat (line_length fi) * 2 = unat (smem_len fi) \<longrightarrow> double_buffered s')
     \<and> (unat (yres v) * unat (line_length fi) * 2 < 2 ^ 32 \<longrightarrow>
          (double_buffered s' \<longleftrightarrow>
             unat (yres v) * unat (line_length fi) * 2 \<le> unat (smem_len fi)))"
proof -
  from fbdev_init_success [OF assms(1)] assms(2,3)
  have db: "double_buffered s' \<longleftrightarrow> yres v * line_length fi * 2 \<le> smem_len fi"
    by auto
  have small: "double_buffered s' \<longleftrightarrow> unat (yres v) * unat (line_length fi) * 2 \<le> unat (smem_len fi)"
    if "unat (yres v) * unat (line_length fi) * 2 < 2 ^ 32"
    using db by (simp add: word_le_nat_alt unat_frame(2) [OF that])
  have "unat (smem_len fi) < 2 ^ LENGTH(32)" by (rule unsigned_less)
  then have eq: "double_buffered s'"
    if "unat (yres v) * unat (line_length fi) * 2 = unat (smem_len fi)"
    using small that by simp
  from db small eq show ?thesis by blast
qed

text \<open>
  C5 at a device that reports 65536 lines of 65536 bytes and 8 bytes of memory: two frames
  need \<open>2 ^ 33\<close> bytes, more than the 8 there are, so the capacity check of the claim
  selects single buffering. The 32-bit product \<open>yres * line_length * 2\<close> of the code wraps
  to 0, and \<^verbatim>\<open>fbdev_init\<close> succeeds and selects double buffering.
\<close>

theorem double_buffering_wraps:
  "fbdev_init default_config (device 65536 65536 8) initial_state
     = Inr (Some 100, wrapping_session)
   \<and> yres (vi wrapping_session) = 65536
   \<and> row_bytes (gr_framebuffer0 wrapping_session) = 65536
   \<and> smem_len_static wrapping_session = 8
   \<and> double_buffered wrapping_session
   \<and> yres (vi wrapping_session) * row_bytes (gr_framebuffer0 wrapping_session) * 2 = 0
   \<and> \<not> (unat (yres (vi wrapping_session))
            * unat (row_bytes (gr_framebuffer0 wrapping_session)) * 2
          \<le> unat (smem_len_static wrapping_session))"
proof -
  have e: "yres (vi wrapping_session) = 65536"
    "row_bytes (gr_framebuffer0 wrapping_session) = 65536"
    "smem_len_static wrapping_session = 8"
    by code_simp+
  have "fbdev_init default_config (device 65536 65536 8) initial_state
     = Inr (Some 100, wrapping_session)"
    "double_buffered wrapping_session"
    by code_simp+
  moreover have "yres (vi wrapping_session) * row_bytes (gr_framebuffer0 wrapping_session) * 2 = 0"
    "\<not> (unat (yres (vi wrapping_session))
            * unat (row_bytes (gr_framebuffer0 wrapping_session)) * 2
          \<le> unat (smem_len_static wrapping_session))"
    by (simp_all only: e) simp_all
  ultimately show ?thesis using e by (intro conjI)
qed

subsection \<open>The channel swap\<close>

lemma swap_index_lt: "4 dvd m \<Longrightarrow> j < m \<Longrightarrow> swap_index j < m"
  unfolding swap_index_def by (auto simp: dvd_def) 

lemma swap_index_invol: "swap_index (swap_index j) = j"
proof -
  have a: "j mod 4 = 0 \<Longrightarrow> (j + 2) mod 4 = 2" by arith
  have b: "j mod 4 = 2 \<Longrightarrow> (j - 2) mod 4 = 0 \<and> 2 \<le> j" by arith
  show ?thesis
    using a b by (auto simp: swap_index_def)
qed

lemma swap_index_group:
  "swap_index (4 * k) = 4 * k + 2" "swap_index (4 * k + 1) = 4 * k + 1"
  "swap_index (4 * k + 2) = 4 * k" "swap_index (4 * k + 3) = 4 * k + 3"
proof -
  have m: "(4 * k) mod 4 = 0" "(4 * k + 1) mod 4 = 1" "(4 * k + 2) mod 4 = 2" "(4 * k + 3) mod 4 = 3"
    by arith+
  show "swap_index (4 * k) = 4 * k + 2" "swap_index (4 * k + 1) = 4 * k + 1"
    "swap_index (4 * k + 2) = 4 * k" "swap_index (4 * k + 3) = 4 * k + 3"
    unfolding swap_index_def by (simp_all only: m) simp_all
qed

lemma unat_plus_small:
  fixes idx n :: u32
  assumes "unat idx + k \<le> unat n"
  shows "unat (idx + of_nat k) = unat idx + k"
proof -
  have "unat n < 2 ^ LENGTH(32)" by (rule unsigned_less)
  with assms have lt: "unat idx + k < 2 ^ LENGTH(32)" by linarith
  then have "k < 2 ^ LENGTH(32)" by linarith
  then have "unat (of_nat k :: u32) = k" by (simp add: unat_of_nat)
  with lt show ?thesis by (simp add: unat_add_lem [THEN iffD1])
qed


lemma next_group: "4 dvd (i::nat) \<Longrightarrow> 4 dvd m \<Longrightarrow> i < m \<Longrightarrow> i + 4 \<le> m"
  by (auto simp: dvd_def)

lemma swap_index_window:
  assumes "i mod 4 = 0"
  shows "swap_index i = i + 2" "swap_index (i + 1) = i + 1" "swap_index (i + 2) = i"
    "swap_index (i + 3) = i + 3" "i + 4 \<le> j \<Longrightarrow> i + 4 \<le> swap_index j"
proof -
  have m: "(i + 1) mod 4 = 1" "(i + 2) mod 4 = 2" "(i + 3) mod 4 = 3"
    using assms by arith+
  show "swap_index i = i + 2" "swap_index (i + 1) = i + 1" "swap_index (i + 2) = i"
    "swap_index (i + 3) = i + 3"
    unfolding swap_index_def by (simp_all only: m assms) simp_all
  have "i + 4 \<le> j \<Longrightarrow> j mod 4 = 2 \<Longrightarrow> i + 4 \<le> j - 2" using assms by arith
  then show "i + 4 \<le> j \<Longrightarrow> i + 4 \<le> swap_index j"
    by (simp add: swap_index_def)
qed

lemma swap_loop_run:
  fixes idx n :: u32
  assumes "4 dvd unat idx" and "unat idx \<le> unat n" and "4 dvd unat n"
    and "length buf = unat n"
  shows "\<exists>buf'. swap_loop idx n buf = Some (Inr buf') \<and> length buf' = length buf
           \<and> (\<forall>j < length buf. buf' ! j = (if j < unat idx then buf ! j else buf ! swap_index j))"
  using assms
proof (induction "unat n - unat idx" arbitrary: idx buf rule: less_induct)
  case less
  show ?case
  proof (cases "idx < n")
    case False
    with less.prems have "unat idx = unat n" by (simp add: word_less_nat_alt)
    with False less.prems show ?thesis
      by (subst swap_loop.simps) simp
  next
    case True
    define i where "i = unat idx"
    from True have lt: "i < unat n" by (simp add: word_less_nat_alt i_def)
    with less.prems have i4: "i + 4 \<le> unat n" unfolding i_def by (simp add: next_group)
    have u2: "unat (idx + 2) = i + 2"
      using unat_plus_small [of idx 2 n] i4 by (simp add: i_def)
    have u4: "unat (idx + 4) = i + 4"
      using unat_plus_small [of idx 4 n] i4 by (simp add: i_def)
    define buf1 where "buf1 = buf[i := buf ! (i + 2), i + 2 := buf ! i]"
    have len1: "length buf1 = length buf" by (simp add: buf1_def)
    have step: "swap_loop idx n buf = swap_loop (idx + 4) n buf1"
      using True i4 less.prems(4)
      by (subst swap_loop.simps) (simp add: u2 i_def [symmetric] buf1_def)
    have "\<exists>buf'. swap_loop (idx + 4) n buf1 = Some (Inr buf') \<and> length buf' = length buf1
           \<and> (\<forall>j < length buf1. buf' ! j = (if j < unat (idx + 4) then buf1 ! j else buf1 ! swap_index j))"
    proof (rule less.hyps)
      show "unat n - unat (idx + 4) < unat n - unat idx" using lt u4 by (simp add: i_def)
      show "4 dvd unat (idx + 4)" using less.prems(1) by (simp add: u4 i_def)
      show "unat (idx + 4) \<le> unat n" using i4 by (simp add: u4)
      show "4 dvd unat n" by fact
      show "length buf1 = unat n" using less.prems(4) by (simp add: buf1_def)
    qed
    then obtain buf' where r: "swap_loop (idx + 4) n buf1 = Some (Inr buf')"
      and l: "length buf' = length buf1"
      and c: "\<And>j. j < length buf1 \<Longrightarrow> buf' ! j = (if j < i + 4 then buf1 ! j else buf1 ! swap_index j)"
      by (auto simp: u4)
    have i0: "i mod 4 = 0" using less.prems(1) by (simp add: i_def)
    have il: "i + 4 \<le> length buf" using i4 less.prems(4) by simp
    have "buf' ! j = (if j < i then buf ! j else buf ! swap_index j)" if j: "j < length buf" for j
    proof -
      from j len1 have cj: "buf' ! j = (if j < i + 4 then buf1 ! j else buf1 ! swap_index j)"
        by (simp add: c)
      consider "j < i" | "j = i" | "j = i + 1" | "j = i + 2" | "j = i + 3" | "i + 4 \<le> j"
        by linarith
      then show ?thesis
      proof cases
        case 1
        then show ?thesis using cj by (simp add: buf1_def)
      next
        case 2
        then show ?thesis using cj il swap_index_window(1) [OF i0] by (simp add: buf1_def)
      next
        case 3
        then show ?thesis using cj il swap_index_window(2) [OF i0] by (simp add: buf1_def)
      next
        case 4
        then show ?thesis using cj il swap_index_window(3) [OF i0] by (simp add: buf1_def)
      next
        case 5
        then show ?thesis using cj il swap_index_window(4) [OF i0] by (simp add: buf1_def)
      next
        case 6
        from swap_index_window(5) [OF i0 6] have "i + 4 \<le> swap_index j" .
        then show ?thesis using cj 6 by (simp add: buf1_def)
      qed
    qed
    with r l len1 step show ?thesis by (simp add: i_def)
  qed
qed


lemma length_spec_channel_swap [simp]: "length (spec_channel_swap buf) = length buf"
  by (simp add: spec_channel_swap_def)

lemma nth_spec_channel_swap: "j < length buf \<Longrightarrow> spec_channel_swap buf ! j = buf ! swap_index j"
  by (simp add: spec_channel_swap_def)

lemma swap_loop_spec:
  assumes "length buf = unat n" and "4 dvd length buf"
  shows "swap_loop 0 n buf = Some (Inr (spec_channel_swap buf))"
proof -
  from swap_loop_run [of 0 n buf] assms
  obtain buf' where r: "swap_loop 0 n buf = Some (Inr buf')" and l: "length buf' = length buf"
    and c: "\<And>j. j < length buf \<Longrightarrow> buf' ! j = buf ! swap_index j"
    by auto
  have "buf' = spec_channel_swap buf"
    by (rule nth_equalityI) (simp_all add: l c nth_spec_channel_swap)
  with r show ?thesis by simp
qed

lemma spec_channel_swap_twice:
  assumes "4 dvd length buf"
  shows "spec_channel_swap (spec_channel_swap buf) = buf"
  by (rule nth_equalityI)
    (simp_all add: nth_spec_channel_swap swap_index_lt [OF assms] swap_index_invol)

text \<open>
  C9. On a buffer whose length is a multiple of 4, the swap loop returns the buffer in
  which byte 0 and byte 2 of every group of four have changed places and bytes 1 and 3 are
  as before, and running the loop on that result gives the first buffer back.
\<close>

theorem channel_swap_involution:
  assumes "length buf = unat n" and "4 dvd length buf"
  shows "swap_loop 0 n buf = Some (Inr (spec_channel_swap buf))
     \<and> length (spec_channel_swap buf) = length buf
     \<and> (\<forall>k. 4 * k < length buf \<longrightarrow>
          spec_channel_swap buf ! (4 * k) = buf ! (4 * k + 2)
          \<and> spec_channel_swap buf ! (4 * k + 1) = buf ! (4 * k + 1)
          \<and> spec_channel_swap buf ! (4 * k + 2) = buf ! (4 * k)
          \<and> spec_channel_swap buf ! (4 * k + 3) = buf ! (4 * k + 3))
     \<and> swap_loop 0 n (spec_channel_swap buf) = Some (Inr buf)"
proof -
  have groups: "spec_channel_swap buf ! (4 * k) = buf ! (4 * k + 2)
          \<and> spec_channel_swap buf ! (4 * k + 1) = buf ! (4 * k + 1)
          \<and> spec_channel_swap buf ! (4 * k + 2) = buf ! (4 * k)
          \<and> spec_channel_swap buf ! (4 * k + 3) = buf ! (4 * k + 3)" if "4 * k < length buf" for k
  proof -
    from that assms(2) have "4 * k + 4 \<le> length buf" by (simp add: next_group)
    then show ?thesis using swap_index_group [of k] by (simp add: nth_spec_channel_swap)
  qed
  have again: "swap_loop 0 n (spec_channel_swap buf) = Some (Inr buf)"
    using swap_loop_spec [of "spec_channel_swap buf" n] assms
    by (simp add: spec_channel_swap_twice)
  from swap_loop_spec [OF assms] groups again show ?thesis by simp
qed

theorem channel_swap_involution_witness:
  "length [1, 2, 3, 4, 5, 6, 7, 8 :: byte] = unat (8 :: u32)
   \<and> 4 dvd length [1, 2, 3, 4, 5, 6, 7, 8 :: byte]
   \<and> swap_loop 0 8 [1, 2, 3, 4, 5, 6, 7, 8] = Some (Inr [3, 2, 1, 4, 7, 6, 5, 8])
   \<and> swap_loop 0 8 [3, 2, 1, 4, 7, 6, 5, 8] = Some (Inr [1, 2, 3, 4, 5, 6, 7, 8])"
proof -
  have e: "spec_channel_swap [1, 2, 3, 4, 5, 6, 7, 8 :: byte] = [3, 2, 1, 4, 7, 6, 5, 8]"
    by code_simp
  have h: "length [1, 2, 3, 4, 5, 6, 7, 8 :: byte] = unat (8 :: u32)"
    "4 dvd length [1, 2, 3, 4, 5, 6, 7, 8 :: byte]"
    by code_simp+
  from channel_swap_involution [OF h] h show ?thesis by (simp only: e)
qed

subsection \<open>One commit\<close>

lemma byte_swap_ok:
  assumes "data (gr_draw_surface s) = DrawMem 0"
    and "length (draw_mem s) = frame_bytes (gr_draw_surface s)"
    and "4 dvd frame_bytes (gr_draw_surface s)"
  shows "byte_swap s = Inr (s\<lparr>draw_mem := spec_channel_swap (draw_mem s)\<rparr>)"
proof -
  have "swap_loop 0 (height (gr_draw_surface s) * row_bytes (gr_draw_surface s)) (draw_mem s)
          = Some (Inr (spec_channel_swap (draw_mem s)))"
    using assms by (intro swap_loop_spec) (simp_all add: frame_bytes_def)
  then show ?thesis
    using assms by (simp add: byte_swap_def Let_def region_def store_def)
qed

lemma byte_swap_fields:
  assumes "byte_swap s = Inr s1" and "data (gr_draw_surface s) = DrawMem 0"
  shows "gr_draw s1 = gr_draw s" "gr_draw_surface s1 = gr_draw_surface s"
    "gr_framebuffer0 s1 = gr_framebuffer0 s" "gr_framebuffer1 s1 = gr_framebuffer1 s"
    "double_buffered s1 = double_buffered s" "displayed_buffer s1 = displayed_buffer s"
    "fb_mem s1 = fb_mem s" "live s1 = live s"
  using assms
  by (auto simp: byte_swap_def Let_def split: option.splits sum.splits)

text \<open>What a commit does whenever it returns, on the pointers \<^verbatim>\<open>fbdev_init\<close> set.\<close>

lemma flip_returns:
  assumes "wired s" and "fbdev_flip cfg ok s = Inr (r, s')"
  shows "r = gr_draw s \<and> gr_draw s' = gr_draw s \<and> wired s'
     \<and> double_buffered s' = double_buffered s
     \<and> displayed_buffer s' = (if double_buffered s then 1 - displayed_buffer s else displayed_buffer s)
     \<and> (\<not> (RECOVERY_BGRA cfg \<and> double_buffered s) \<longrightarrow> draw_mem s' = draw_mem s)"
proof (cases "double_buffered s")
  case False
  with assms show ?thesis
    by (auto simp: wired_def fbdev_flip_def memcpy_bytes_def split: option.splits if_splits)
next
  case True
  from assms(1) True have w: "data (gr_draw_surface s) = DrawMem 0"
    "data (gr_framebuffer0 s) = FbMem 0"
    "data (gr_framebuffer1 s) = FbMem (frame_bytes (gr_draw_surface s))"
    "displayed_buffer s = 0 \<or> displayed_buffer s = 1"
    by (simp_all add: wired_def)
  from assms(2) True obtain s1 where
    sw: "(if RECOVERY_BGRA cfg then byte_swap s else Inr s) = Inr s1"
    by (auto simp: fbdev_flip_def split: option.splits sum.splits)
  have f: "gr_draw s1 = gr_draw s" "gr_draw_surface s1 = gr_draw_surface s"
    "gr_framebuffer0 s1 = gr_framebuffer0 s" "gr_framebuffer1 s1 = gr_framebuffer1 s"
    "double_buffered s1 = double_buffered s" "displayed_buffer s1 = displayed_buffer s"
    "\<not> RECOVERY_BGRA cfg \<Longrightarrow> draw_mem s1 = draw_mem s"
    using sw byte_swap_fields [of s s1, OF _ w(1)] by (auto split: if_splits)
  from w(4) show ?thesis
  proof
    assume d: "displayed_buffer s = 0"
    with assms(2) True sw f w show ?thesis
      by (auto simp: fbdev_flip_def gr_framebuffer_def memcpy_bytes_def wired_def
            set_displayed_framebuffer_slot split: option.splits if_splits)
  next
    assume d: "displayed_buffer s = 1"
    with assms(2) True sw f w show ?thesis
      by (auto simp: fbdev_flip_def gr_framebuffer_def memcpy_bytes_def wired_def
            set_displayed_framebuffer_slot split: option.splits if_splits)
  qed
qed

lemma flip_shown:
  assumes "wired s" and "double_buffered s" and "fbdev_flip cfg ok s = Inr (r, s')"
  shows "gr_framebuffer0 s' = gr_framebuffer0 s
     \<and> yoffset (vi s') = word_of_int (1 - displayed_buffer s) * height (gr_framebuffer0 s)
     \<and> yres_virtual (vi s') = height (gr_framebuffer0 s) * 2
     \<and> bits_per_pixel (vi s') = pixel_bytes (gr_framebuffer0 s) * 8
     \<and> shown s' = (if ok then vi s' else shown s)"
proof -
  from assms(1,2) have w: "data (gr_draw_surface s) = DrawMem 0"
    "data (gr_framebuffer0 s) = FbMem 0"
    "data (gr_framebuffer1 s) = FbMem (frame_bytes (gr_draw_surface s))"
    "displayed_buffer s = 0 \<or> displayed_buffer s = 1"
    by (simp_all add: wired_def)
  from assms(2,3) obtain s1 where
    sw: "(if RECOVERY_BGRA cfg then byte_swap s else Inr s) = Inr s1"
    by (auto simp: fbdev_flip_def split: option.splits sum.splits)
  have f: "gr_draw s1 = gr_draw s" "gr_draw_surface s1 = gr_draw_surface s"
    "gr_framebuffer0 s1 = gr_framebuffer0 s" "gr_framebuffer1 s1 = gr_framebuffer1 s"
    "double_buffered s1 = double_buffered s" "displayed_buffer s1 = displayed_buffer s"
    "vi s1 = vi s" "shown s1 = shown s"
    using sw w(1) by (auto simp: byte_swap_def Let_def split: if_splits option.splits sum.splits)
  from w(4) show ?thesis
  proof
    assume d: "displayed_buffer s = 0"
    with assms(2,3) sw f w show ?thesis
      by (auto simp: fbdev_flip_def gr_framebuffer_def memcpy_bytes_def
            set_displayed_framebuffer_vi split: option.splits if_splits)
  next
    assume d: "displayed_buffer s = 1"
    with assms(2,3) sw f w show ?thesis
      by (auto simp: fbdev_flip_def gr_framebuffer_def memcpy_bytes_def
            set_displayed_framebuffer_vi split: option.splits if_splits)
  qed
qed

lemma committed_length:
  "layout_ok cfg s \<Longrightarrow> length (committed cfg s) = frame_bytes (gr_draw_surface s)"
  by (simp add: committed_def layout_ok_def)

text \<open>
  On a sound layout a commit does return: it copies exactly one frame,
  \<open>height * row_bytes\<close> bytes of the drawing surface (swapped where the byte swap runs),
  into the slot that is not visible, or into the only slot, and every other byte of the
  mapping is as before.
\<close>

lemma flip_effect:
  assumes "layout_ok cfg s"
  shows "\<exists>s'. fbdev_flip cfg ok s = Inr (gr_draw s, s')
     \<and> draw_mem s' = committed cfg s
     \<and> fb_mem s' = take (target_offset s) (fb_mem s) @ committed cfg s
                       @ drop (target_offset s + frame_bytes (gr_draw_surface s)) (fb_mem s)
     \<and> live s' = live s
     \<and> gr_draw_surface s' = gr_draw_surface s"
proof (cases "double_buffered s")
  case False
  with assms show ?thesis
    by (auto simp: layout_ok_def wired_def fbdev_flip_def memcpy_bytes_def region_def
          committed_def target_offset_def)
next
  case True
  with assms obtain h where h: "gr_draw s = Some h" by (auto simp: layout_ok_def)
  from assms True have l: "data (gr_draw_surface s) = DrawMem 0"
    "length (draw_mem s) = frame_bytes (gr_draw_surface s)"
    "data (gr_framebuffer0 s) = FbMem 0"
    "data (gr_framebuffer1 s) = FbMem (frame_bytes (gr_draw_surface s))"
    "2 * frame_bytes (gr_draw_surface s) \<le> length (fb_mem s)"
    "displayed_buffer s = 0 \<or> displayed_buffer s = 1"
    "RECOVERY_BGRA cfg \<Longrightarrow> 4 dvd frame_bytes (gr_draw_surface s)"
    by (simp_all add: layout_ok_def wired_def split: if_splits)
  define s1 where "s1 = s\<lparr>draw_mem := committed cfg s\<rparr>"
  have sw: "(if RECOVERY_BGRA cfg then byte_swap s else Inr s) = Inr s1"
    using l True by (simp add: byte_swap_ok s1_def committed_def)
  have s1f: "gr_draw s1 = gr_draw s" "gr_draw_surface s1 = gr_draw_surface s"
    "gr_framebuffer0 s1 = gr_framebuffer0 s" "gr_framebuffer1 s1 = gr_framebuffer1 s"
    "double_buffered s1" "displayed_buffer s1 = displayed_buffer s" "fb_mem s1 = fb_mem s"
    "draw_mem s1 = committed cfg s" "live s1 = live s"
    "length (draw_mem s1) = frame_bytes (gr_draw_surface s)"
    using True l by (auto simp: s1_def committed_def)
  from l(6) show ?thesis
  proof
    assume d: "displayed_buffer s = 0"
    show ?thesis
      using h True d l s1f
      by (simp add: fbdev_flip_def sw gr_framebuffer_def memcpy_bytes_def region_def
            target_offset_def)
  next
    assume d: "displayed_buffer s = 1"
    show ?thesis
      using h True d l s1f
      by (simp add: fbdev_flip_def sw gr_framebuffer_def memcpy_bytes_def region_def
            target_offset_def)
  qed
qed

lemma flip_layout_ok:
  assumes "layout_ok cfg s" and "fbdev_flip cfg ok s = Inr (r, s')"
  shows "layout_ok cfg s'"
proof -
  from assms(1) have w: "wired s" by (simp add: layout_ok_def)
  from flip_effect [OF assms(1), of ok] assms(2) committed_length [OF assms(1)]
    flip_returns [OF w assms(2)]
  show ?thesis using assms(1)
    by (auto simp: layout_ok_def split: if_splits)
qed

lemma paint_wired: "wired s \<Longrightarrow> wired (paint bs s)"
  by (simp add: wired_def)

lemma paint_layout_ok: "layout_ok cfg s \<Longrightarrow> layout_ok cfg (paint bs s)"
  by (simp add: layout_ok_def paint_wired)

subsection \<open>Sessions\<close>

lemma session_returns:
  assumes "wired s" and "session cfg evs s = Inr (obs, s')"
  shows "(\<forall>c \<in> set obs. returned c = gr_draw s
            \<and> (\<not> (RECOVERY_BGRA cfg \<and> double_buffered s) \<longrightarrow> back_after c = back_before c))
     \<and> gr_draw s' = gr_draw s \<and> length obs = commit_count evs"
  using assms
proof (induction cfg evs s arbitrary: obs rule: session.induct)
  case (1 cfg s)
  then show ?case by simp
next
  case (2 cfg bs evs s)
  from "2.prems" have "session cfg evs (paint bs s) = Inr (obs, s')" by simp
  from "2.IH" [OF paint_wired [OF "2.prems"(1)] this] show ?case by simp
next
  case (3 cfg ok evs s)
  from "3.prems"(2) obtain r s1 obs1 where
    f: "fbdev_flip cfg ok s = Inr (r, s1)" and
    t: "session cfg evs s1 = Inr (obs1, s')" and
    ob: "obs = \<lparr>returned = r, back_before = draw_mem s, back_after = draw_mem s1,
                 front_before = fb_mem s, front_after = fb_mem s1,
                 visible_before = displayed_buffer s,
                 visible_after = displayed_buffer s1,
                 shown_after = shown s1\<rparr> # obs1"
    by (auto split: sum.splits prod.splits)
  note fr = flip_returns [OF "3.prems"(1) f]
  from fr have w1: "wired s1" by simp
  from "3.IH" [OF f refl w1 t] fr ob show ?case by simp
qed

lemma session_slots:
  assumes "wired s" and "double_buffered s" and "session cfg evs s = Inr (obs, s')"
  shows "map visible_before obs = slots_from (displayed_buffer s) (length obs)
     \<and> map visible_after obs = slots_from (1 - displayed_buffer s) (length obs)"
  using assms
proof (induction cfg evs s arbitrary: obs rule: session.induct)
  case (1 cfg s)
  then show ?case by simp
next
  case (2 cfg bs evs s)
  from "2.prems" have "session cfg evs (paint bs s) = Inr (obs, s')" by simp
  from "2.IH" [OF paint_wired [OF "2.prems"(1)] _ this] "2.prems"(2) show ?case by simp
next
  case (3 cfg ok evs s)
  from "3.prems"(3) obtain r s1 obs1 where
    f: "fbdev_flip cfg ok s = Inr (r, s1)" and
    t: "session cfg evs s1 = Inr (obs1, s')" and
    ob: "obs = \<lparr>returned = r, back_before = draw_mem s, back_after = draw_mem s1,
                 front_before = fb_mem s, front_after = fb_mem s1,
                 visible_before = displayed_buffer s,
                 visible_after = displayed_buffer s1,
                 shown_after = shown s1\<rparr> # obs1"
    by (auto split: sum.splits prod.splits)
  note fr = flip_returns [OF "3.prems"(1) f]
  from fr "3.prems"(2) have w1: "wired s1" "double_buffered s1"
    "displayed_buffer s1 = 1 - displayed_buffer s" by simp_all
  from "3.IH" [OF f refl w1(1,2) t] w1(3) ob show ?case by simp
qed

lemma session_total:
  assumes "layout_ok cfg s"
  shows "\<exists>obs s'. session cfg evs s = Inr (obs, s')"
  using assms
proof (induction cfg evs s rule: session.induct)
  case (1 cfg s)
  then show ?case by simp
next
  case (2 cfg bs evs s)
  from "2.IH" [OF paint_layout_ok [OF "2.prems"]] show ?case by simp
next
  case (3 cfg ok evs s)
  from flip_effect [OF "3.prems", of ok] obtain s1 where
    f: "fbdev_flip cfg ok s = Inr (gr_draw s, s1)" by blast
  from "3.IH" [OF f refl flip_layout_ok [OF "3.prems" f]] f
  show ?case by auto
qed

lemma session_shown:
  assumes "wired s" and "double_buffered s" and "flips_succeed evs"
    and "session cfg evs s = Inr (obs, s')"
  shows "map (\<lambda>c. yoffset (shown_after c)) obs
           = map (\<lambda>d. word_of_int d * height (gr_framebuffer0 s))
               (slots_from (1 - displayed_buffer s) (length obs))
     \<and> (\<forall>c \<in> set obs. yres_virtual (shown_after c) = height (gr_framebuffer0 s) * 2)"
  using assms
proof (induction cfg evs s arbitrary: obs rule: session.induct)
  case (1 cfg s)
  then show ?case by simp
next
  case (2 cfg bs evs s)
  from "2.prems" have "session cfg evs (paint bs s) = Inr (obs, s')" "flips_succeed evs"
    by simp_all
  from "2.IH" [OF paint_wired [OF "2.prems"(1)] _ this(2,1)] "2.prems"(2) show ?case by simp
next
  case (3 cfg ok evs s)
  from "3.prems"(3) have ok: "ok" and rest: "flips_succeed evs" by simp_all
  from "3.prems"(4) obtain r s1 obs1 where
    f: "fbdev_flip cfg ok s = Inr (r, s1)" and
    t: "session cfg evs s1 = Inr (obs1, s')" and
    ob: "obs = \<lparr>returned = r, back_before = draw_mem s, back_after = draw_mem s1,
                 front_before = fb_mem s, front_after = fb_mem s1,
                 visible_before = displayed_buffer s,
                 visible_after = displayed_buffer s1,
                 shown_after = shown s1\<rparr> # obs1"
    by (auto split: sum.splits prod.splits)
  note fr = flip_returns [OF "3.prems"(1) f]
  note fs = flip_shown [OF "3.prems"(1,2) f]
  from fr "3.prems"(2) have w1: "wired s1" "double_buffered s1"
    "displayed_buffer s1 = 1 - displayed_buffer s" by simp_all
  from "3.IH" [OF f refl w1(1,2) rest t] w1(3) ob fs ok show ?case by simp
qed




text \<open>Values on the one-pixel devices.\<close>

lemma double_init:
  "fbdev_init default_config (device 1 4 8) initial_state
     = Inr (Some 100, double_session default_config)"
  "fbdev_init bgra_config (device 1 4 8) initial_state
     = Inr (Some 100, double_session bgra_config)"
  "double_buffered (double_session default_config)"
  "double_buffered (double_session bgra_config)"
  by code_simp+

lemma regular_demo:
  "regular_device default_config (device 1 4 8)"
  "regular_device bgra_config (device 1 4 8)"
  by (simp_all add: regular_device_def device_def descriptor_def default_config_def
        bgra_config_def)


lemma demo_device_values:
  "height (gr_framebuffer0 (double_session default_config)) = 1"
  "put_vscreeninfo_ok (device 1 4 8)"
  by code_simp+

lemma demo_flip_values:
  "flips_succeed demo_flips"
  "commit_count demo_flips = Suc (Suc (Suc (Suc 0)))"
  by (simp_all add: demo_flips_def)


lemma commit_count_demo: "commit_count demo_events = Suc (Suc (Suc (Suc 0)))"
  by (simp add: demo_events_def)




text \<open>
  C6. After a successful \<^verbatim>\<open>fbdev_init\<close> that chose double buffering, slot 0 is recorded as
  visible, and the driver scans from line 0 of a mapping of two frames if the page-flip
  call of \<^verbatim>\<open>fbdev_init\<close> succeeded. In every session the commits find slots 0, 1, 0, 1, ...
  recorded and leave slots 1, 0, 1, 0, ... recorded, one step per commit. When every
  page-flip call of the session succeeds, the driver is left after each commit with the
  vertical offset of that slot, \<open>slot * yres\<close>, in a virtual height of two frames: the
  screen shows slots 1, 0, 1, 0, ... in turn. On a regular device every session runs to
  its end.
\<close>

theorem visible_slot_alternates:
  assumes "fbdev_init cfg env s0 = Inr (Some h, s)" and "double_buffered s"
  shows "displayed_buffer s = 0
     \<and> (\<forall>v. vscreeninfo env = Some v \<longrightarrow> height (gr_framebuffer0 s) = yres v)
     \<and> (put_vscreeninfo_ok env \<longrightarrow>
          yoffset (shown s) = 0 \<and> yres_virtual (shown s) = height (gr_framebuffer0 s) * 2)
     \<and> (\<forall>obs s'. session cfg evs s = Inr (obs, s') \<longrightarrow>
          length obs = commit_count evs
          \<and> map visible_before obs = slots_from 0 (length obs)
          \<and> map visible_after obs = slots_from 1 (length obs)
          \<and> (flips_succeed evs \<longrightarrow>
               map (\<lambda>c. yoffset (shown_after c)) obs
                 = map (\<lambda>d. word_of_int d * height (gr_framebuffer0 s))
                     (slots_from 1 (length obs))
               \<and> (\<forall>c \<in> set obs.
                    yres_virtual (shown_after c) = height (gr_framebuffer0 s) * 2)))
     \<and> (regular_device cfg env \<longrightarrow> (\<exists>obs s'. session cfg evs s = Inr (obs, s')))"
proof -
  note w = init_wired [OF assms(1)]
  from w(3) assms(2) have d: "displayed_buffer s = 0" by simp
  have hv: "height (gr_framebuffer0 s) = yres v" if "vscreeninfo env = Some v" for v
    by (rule fbdev_init_device(1) [OF assms(1) that])
  from fbdev_init_success [OF assms(1)] obtain v where v: "vscreeninfo env = Some v" by blast
  have dev: "yoffset (shown s) = 0 \<and> yres_virtual (shown s) = height (gr_framebuffer0 s) * 2"
    if "put_vscreeninfo_ok env"
    using fbdev_init_device(2) [OF assms(1) v assms(2)] hv [OF v] that by simp
  have "length obs = commit_count evs
          \<and> map visible_before obs = slots_from 0 (length obs)
          \<and> map visible_after obs = slots_from 1 (length obs)
          \<and> (flips_succeed evs \<longrightarrow>
               map (\<lambda>c. yoffset (shown_after c)) obs
                 = map (\<lambda>d. word_of_int d * height (gr_framebuffer0 s))
                     (slots_from 1 (length obs))
               \<and> (\<forall>c \<in> set obs.
                    yres_virtual (shown_after c) = height (gr_framebuffer0 s) * 2))"
    if "session cfg evs s = Inr (obs, s')" for obs s'
    using session_slots [OF w(1) assms(2) that] session_returns [OF w(1) that]
      session_shown [OF w(1) assms(2) _ that] d by simp
  moreover have "\<exists>obs s'. session cfg evs s = Inr (obs, s')" if "regular_device cfg env"
    by (rule session_total [OF init_layout_ok [OF assms(1) that]])
  ultimately show ?thesis using d hv dev by blast
qed

theorem visible_slot_alternates_witness:
  "fbdev_init default_config (device 1 4 8) initial_state
     = Inr (Some 100, double_session default_config)
   \<and> double_buffered (double_session default_config)
   \<and> regular_device default_config (device 1 4 8)
   \<and> map visible_before (demo_obs default_config) = [0, 1, 0, 1]
   \<and> map visible_after (demo_obs default_config) = [1, 0, 1, 0]
   \<and> put_vscreeninfo_ok (device 1 4 8) \<and> flips_succeed demo_flips
   \<and> yoffset (shown (double_session default_config)) = 0
   \<and> map (\<lambda>c. yoffset (shown_after c))
        (observed (session default_config demo_flips (double_session default_config)))
      = [1, 0, 1, 0]"
proof -
  note t = visible_slot_alternates [OF double_init(1) double_init(3), of demo_events]
  from t regular_demo(1) obtain obs s' where
    r: "session default_config demo_events (double_session default_config) = Inr (obs, s')"
    by blast
  then have o: "demo_obs default_config = obs"
    by (simp add: demo_obs_def observed_def)
  from t r have "length obs = Suc (Suc (Suc (Suc 0)))"
    "map visible_before obs = slots_from 0 (length obs)"
    "map visible_after obs = slots_from 1 (length obs)"
    by (auto simp: commit_count_demo)
  then have book: "map visible_before obs = [0, 1, 0, 1] \<and> map visible_after obs = [1, 0, 1, 0]"
    by simp
  note u = visible_slot_alternates [OF double_init(1) double_init(3), of demo_flips]
  from u demo_device_values(2) have z: "yoffset (shown (double_session default_config)) = 0"
    by blast
  from u regular_demo(1) obtain obs2 s2 where
    r2: "session default_config demo_flips (double_session default_config) = Inr (obs2, s2)"
    by blast
  then have o2: "observed (session default_config demo_flips (double_session default_config)) = obs2"
    by (simp add: observed_def)
  from u r2 demo_flip_values(1) have "length obs2 = commit_count demo_flips"
    "map (\<lambda>c. yoffset (shown_after c)) obs2
       = map (\<lambda>d. word_of_int d * height (gr_framebuffer0 (double_session default_config)))
           (slots_from 1 (length obs2))"
    by blast+
  then have "map (\<lambda>c. yoffset (shown_after c)) obs2 = [1, 0, 1, 0]"
    by (simp add: demo_device_values demo_flip_values)
  with book z show ?thesis
    using double_init(1,3) regular_demo(1) demo_device_values(2) demo_flip_values(1)
    by (simp add: o o2)
qed

subsection \<open>Commits with the byte swap compiled in\<close>

text \<open>
  C2 at a single-buffered device with the byte swap compiled in: the commit of the painted
  bytes 1, 2, 3, 4 copies them to the front buffer as they are and leaves them in the
  drawing surface as they are. On the double-buffered device the same commit sends
  3, 2, 1, 4 to the hidden slot.
\<close>

theorem single_buffered_commit_unswapped:
  "RECOVERY_BGRA bgra_config
   \<and> fbdev_init bgra_config (device 1 4 4) initial_state
       = Inr (Some 100, single_session bgra_config)
   \<and> \<not> double_buffered (single_session bgra_config)
   \<and> map back_before (observed (session bgra_config [Paint [1, 2, 3, 4], Commit True]
        (single_session bgra_config))) = [[1, 2, 3, 4]]
   \<and> map back_after (observed (session bgra_config [Paint [1, 2, 3, 4], Commit True]
        (single_session bgra_config))) = [[1, 2, 3, 4]]
   \<and> map front_after (observed (session bgra_config [Paint [1, 2, 3, 4], Commit True]
        (single_session bgra_config))) = [[1, 2, 3, 4]]
   \<and> map front_after (observed (session bgra_config [Paint [1, 2, 3, 4], Commit True]
        (double_session bgra_config))) = [[0, 0, 0, 0, 3, 2, 1, 4]]"
  by code_simp

text \<open>
  C8 at a double-buffered device with the byte swap compiled in and a frame of 6 bytes: the
  swap loop, at index 4, reads and writes index 6 of the 6-byte drawing surface, so the
  commit faults before its copy.
\<close>

theorem ragged_frame_swap_out_of_bounds:
  "RECOVERY_BGRA bgra_config
   \<and> fbdev_init bgra_config (device 1 6 12) initial_state
       = Inr (Some 100, state_of (fbdev_init bgra_config (device 1 6 12) initial_state))
   \<and> double_buffered (state_of (fbdev_init bgra_config (device 1 6 12) initial_state))
   \<and> length (draw_mem (state_of (fbdev_init bgra_config (device 1 6 12) initial_state))) = 6
   \<and> swap_loop 0 6 [1, 2, 3, 4, 5, 6] = Some (Inl OutOfBounds)
   \<and> fbdev_flip bgra_config True
        (paint [1, 2, 3, 4, 5, 6] (state_of (fbdev_init bgra_config (device 1 6 12) initial_state)))
       = Inl OutOfBounds"
  by code_simp

end
